theory Spec2Isabelle
  imports Main "HOL-Library.Word"
begin

unbundle bit_operations_syntax

section \<open>Platform types\<close>

text \<open>
  \<open>OSStatus\<close> is a signed 32-bit integer and \<open>UInt32\<close> an unsigned one; both are
  32-bit words (\<open>sint\<close> reads the first, \<open>unat\<close> the second). Pointers and opaque
  handles (\<open>AudioUnit\<close>, \<open>AudioComponent\<close>, \<open>CFTypeRef\<close>, \<open>void *\<close>) are 64-bit
  addresses, \<open>nullptr\<close> being address 0.
\<close>

type_synonym OSStatus = "32 word"
type_synonym UInt32 = "32 word"
type_synonym addr = "64 word"

definition nullptr :: addr where
  "nullptr = 0"

section \<open>SystemAudioUtilities.hpp: AutoCFType\<close>

text \<open>
  The wrapper holds one \<open>CFTypeRef\<close>, the member \<open>type_\<close>; a name cannot end
  in an underscore here, so members are written with a final \<open>m\<close> (\<open>type_m\<close>).
  The cast to the template parameter \<open>T\<close> leaves the handle as it is. \<open>CFRelease\<close>
  is a platform call; its effect is recorded as the list of handles released so far,
  oldest first, which every operation that may release takes and returns.
\<close>

record AutoCFType =
  type_m :: addr

definition AutoCFType_init :: AutoCFType where
  "AutoCFType_init = \<lparr>type_m = nullptr\<rparr>"

definition AutoCFType_dtor :: "AutoCFType \<Rightarrow> addr list \<Rightarrow> addr list" where
  "AutoCFType_dtor w released =
     (if type_m w \<noteq> nullptr then released @ [type_m w] else released)"

definition reset :: "AutoCFType \<Rightarrow> addr \<Rightarrow> addr list \<Rightarrow> AutoCFType \<times> addr list" where
  "reset w t released =
     (let released' = (if type_m w \<noteq> nullptr then released @ [type_m w] else released)
      in (w\<lparr>type_m := t\<rparr>, released'))"

definition release :: "AutoCFType \<Rightarrow> addr \<times> AutoCFType" where
  "release w = (let result = type_m w in (result, w\<lparr>type_m := nullptr\<rparr>))"

definition get :: "AutoCFType \<Rightarrow> addr \<times> AutoCFType" where
  "get w = (type_m w, w)"

text \<open>A run of \<open>reset\<close> calls, in order, threading the wrapper and the release log.\<close>

fun resets :: "AutoCFType \<Rightarrow> addr list \<Rightarrow> addr list \<Rightarrow> AutoCFType \<times> addr list" where
  "resets w [] released = (w, released)"
| "resets w (t # ts) released =
     (case reset w t released of (w', released') \<Rightarrow> resets w' ts released')"

section \<open>Platform declarations used by the mixer\<close>

text \<open>
  The types and constants below come from the platform's headers (MacTypes.h,
  CoreAudioBaseTypes.h, AudioComponent.h, AUComponent.h, AudioUnitProperties.h,
  AudioUnitParameters.h), which the repository includes and does not contain. Status
  codes carry their header values; property, parameter and scope identifiers are
  enumerations.
\<close>

definition noErr :: OSStatus where
  "noErr = 0"

definition kAudio_ParamError :: OSStatus where
  "kAudio_ParamError = - 50"

definition kAudioUnitErr_ExtensionNotFound :: OSStatus where
  "kAudioUnitErr_ExtensionNotFound = - 66744"

text \<open>
  A \<open>Float32\<close> (\<open>AudioUnitParameterValue\<close>) is carried as its IEEE-754 bit pattern; the
  code only passes such values on, and writes the literal \<open>1.0\<close>.
\<close>

type_synonym Float32 = "32 word"

definition f32_one :: Float32 where
  "f32_one = 0x3F800000"

text \<open>
  A \<open>Float64\<close> holding the sample clock is a non-negative whole number, and is modelled
  by that number. Adding a \<open>UInt32\<close> to it converts the \<open>UInt32\<close> exactly and rounds
  the exact sum to the nearest value with a 53-bit significand, ties to the even
  significand (IEEE-754 binary64, default rounding): \<open>f64_round\<close>. Sums up to \<open>2^53\<close>
  are exact. The clock stays far below the binary64 overflow threshold, since a clock
  of \<open>2^85\<close> or more is no longer changed by adding a \<open>UInt32\<close>.
\<close>

type_synonym Float64 = nat

fun bitlen :: "nat \<Rightarrow> nat" where
  "bitlen n = (if n = 0 then 0 else Suc (bitlen (n div 2)))"

declare bitlen.simps [simp del]

definition f64_round :: "nat \<Rightarrow> Float64" where
  "f64_round x =
     (if x < 2 ^ 53 then x
      else let e = bitlen x - 53;
               q = x div 2 ^ e;
               r = x mod 2 ^ e;
               half = 2 ^ (e - 1)
           in if r < half \<or> (r = half \<and> even q) then q * 2 ^ e else (q + 1) * 2 ^ e)"

definition f64_add_u32 :: "Float64 \<Rightarrow> UInt32 \<Rightarrow> Float64" where
  "f64_add_u32 x n = f64_round (x + unat n)"

record AudioBuffer =
  mNumberChannels :: UInt32
  mDataByteSize :: UInt32
  mData :: addr

text \<open>
  An \<open>AudioBufferList\<close> is a count followed by a variable-length array; \<open>mBuffers\<close>
  holds the array as allocated, which the count need not agree with.
\<close>

record AudioBufferList =
  mNumberBuffers :: UInt32
  mBuffers :: "AudioBuffer list"

text \<open>Memory as far as the mixer reads and writes it: the buffer lists, by address.\<close>

type_synonym store = "addr \<rightharpoonup> AudioBufferList"

text \<open>
  Undefined behaviour of the C++ is a fault: a buffer-list pointer that points at no
  buffer list, or an index beyond the allocated array.
\<close>

datatype fault = InvalidPointer | OutOfBounds

text \<open>\<open>AudioTimeStamp\<close>: the two fields the code sets; the others are zero-initialised.\<close>

record AudioTimeStamp =
  mSampleTime :: Float64
  mFlags :: UInt32

definition kAudioTimeStampSampleTimeValid :: UInt32 where
  "kAudioTimeStampSampleTimeValid = 1"

text \<open>
  \<open>mSampleRate\<close> is a \<open>Float64\<close> the code never computes with; it is carried as its
  bit pattern.
\<close>

record AudioStreamBasicDescription =
  mSampleRate :: "64 word"
  mFormatID :: UInt32
  mFormatFlags :: UInt32
  mBytesPerPacket :: UInt32
  mFramesPerPacket :: UInt32
  mBytesPerFrame :: UInt32
  mChannelsPerFrame :: UInt32
  mBitsPerChannel :: UInt32
  mReserved :: UInt32

record AudioComponentDescription =
  componentType :: UInt32
  componentSubType :: UInt32
  componentManufacturer :: UInt32
  componentFlags :: UInt32
  componentFlagsMask :: UInt32

text \<open>The four-character codes \<open>'aumx'\<close>, \<open>'mxmx'\<close> and \<open>'appl'\<close>.\<close>

definition kAudioUnitType_Mixer :: UInt32 where
  "kAudioUnitType_Mixer = 0x61756D78"

definition kAudioUnitSubType_MatrixMixer :: UInt32 where
  "kAudioUnitSubType_MatrixMixer = 0x6D786D78"

definition kAudioUnitManufacturer_Apple :: UInt32 where
  "kAudioUnitManufacturer_Apple = 0x6170706C"

datatype AudioUnitPropertyID =
    kAudioUnitProperty_BusCount
  | kAudioUnitProperty_StreamFormat
  | kAudioUnitProperty_ShouldAllocateBuffer
  | kAudioUnitProperty_SetRenderCallback

datatype AudioUnitScope =
    kAudioUnitScope_Global
  | kAudioUnitScope_Input
  | kAudioUnitScope_Output

datatype AudioUnitParameterID = kMatrixMixerParam_Volume

text \<open>
  The data a property is set to: a \<open>UInt32\<close>, a stream format, or an
  \<open>AURenderCallbackStruct\<close> whose \<open>inputProc\<close> is \<open>renderCallback\<close> and whose
  \<open>inputProcRefCon\<close> is the address given.
\<close>

datatype property_data =
    UInt32Data UInt32
  | StreamFormatData AudioStreamBasicDescription
  | RenderCallbackData addr

text \<open>
  The platform calls the mixer makes, with their arguments in the order of the C
  prototypes (the data pointer and size of \<open>AudioUnitSetProperty\<close> are the data).
  \<open>AudioComponentInstanceNew\<close> is passed the address of \<open>mixerUnit_\<close>; the call carries
  what that member holds at the call, and the reply's handle is what it holds after.
\<close>

datatype call =
    AudioComponentFindNext addr AudioComponentDescription
  | AudioComponentInstanceNew addr addr
  | AudioUnitSetProperty addr AudioUnitPropertyID AudioUnitScope UInt32 property_data
  | AudioUnitInitialize addr
  | AudioUnitSetParameter addr AudioUnitParameterID AudioUnitScope UInt32 Float32 UInt32
  | AudioUnitUninitialize addr
  | AudioComponentInstanceDispose addr
  | AudioUnitRender addr addr AudioTimeStamp UInt32 UInt32 addr

record reply =
  status :: OSStatus
  handle :: addr

type_synonym history = "(call \<times> reply) list"

text \<open>
  The render callback as the platform sees it once its \<open>inRefCon\<close> is bound:
  \<open>ioActionFlags\<close>, \<open>inTimeStamp\<close>, \<open>inBusNumber\<close>, \<open>inNumberFrames\<close>, \<open>ioData\<close>, on the
  memory.
\<close>

type_synonym pull =
  "addr \<Rightarrow> AudioTimeStamp \<Rightarrow> UInt32 \<Rightarrow> UInt32 \<Rightarrow> addr \<Rightarrow> store \<Rightarrow> fault + (OSStatus \<times> store)"

text \<open>
  The mixing capability is a parameter of every operation. It answers each call from the
  calls and replies so far; \<open>AudioUnitRender\<close> is also handed the render callback and the
  memory, may call the callback any number of times, and returns its status and the
  memory it leaves.
\<close>

record backend =
  respond :: "history \<Rightarrow> call \<Rightarrow> reply"
  render :: "history \<Rightarrow> pull \<Rightarrow> call \<Rightarrow> store \<Rightarrow> fault + (OSStatus \<times> store)"

definition api :: "backend \<Rightarrow> history \<Rightarrow> call \<Rightarrow> reply \<times> history" where
  "api be h c = (let r = respond be h c in (r, h @ [(c, r)]))"

section \<open>SystemAudioMixer.cpp\<close>

record SystemAudioMixer =
  mixerUnit_m :: addr
  mixerInputChannels_m :: UInt32
  mixerOutputChannels_m :: UInt32
  sampleTime_m :: Float64
  renderCallbackInputABL_m :: addr

text \<open>
  The constructor initialises \<open>sampleTime_\<close> only; the other members keep whatever the
  object's memory held, given here as \<open>indeterminate\<close>.
\<close>

definition SystemAudioMixer_ctor :: "SystemAudioMixer \<Rightarrow> SystemAudioMixer" where
  "SystemAudioMixer_ctor indeterminate = indeterminate\<lparr>sampleTime_m := 0\<rparr>"

definition configureMixer ::
  "backend \<Rightarrow> SystemAudioMixer \<Rightarrow> history \<Rightarrow> OSStatus \<times> SystemAudioMixer \<times> history" where
  "configureMixer be m h =
     (let inputBusses = 1 in
      case api be h (AudioUnitSetProperty (mixerUnit_m m) kAudioUnitProperty_BusCount
                       kAudioUnitScope_Input 0 (UInt32Data inputBusses)) of (r, h) \<Rightarrow>
      if noErr \<noteq> status r then (status r, m, h)
      else
        let outputBusses = 1 in
        case api be h (AudioUnitSetProperty (mixerUnit_m m) kAudioUnitProperty_BusCount
                         kAudioUnitScope_Output 0 (UInt32Data outputBusses)) of (r, h) \<Rightarrow>
        if noErr \<noteq> status r then (status r, m, h)
        else (noErr, m, h))"

definition configureStreamFormats ::
  "backend \<Rightarrow> SystemAudioMixer \<Rightarrow> history \<Rightarrow> AudioStreamBasicDescription
     \<Rightarrow> AudioStreamBasicDescription \<Rightarrow> OSStatus \<times> SystemAudioMixer \<times> history" where
  "configureStreamFormats be m h inputASBD outputASBD =
     (case api be h (AudioUnitSetProperty (mixerUnit_m m) kAudioUnitProperty_StreamFormat
                       kAudioUnitScope_Input 0 (StreamFormatData inputASBD)) of (r, h) \<Rightarrow>
      if noErr \<noteq> status r then (status r, m, h)
      else
        let m = m\<lparr>mixerInputChannels_m := mChannelsPerFrame inputASBD\<rparr> in
        case api be h (AudioUnitSetProperty (mixerUnit_m m) kAudioUnitProperty_StreamFormat
                         kAudioUnitScope_Output 0 (StreamFormatData outputASBD)) of (r, h) \<Rightarrow>
        if noErr \<noteq> status r then (status r, m, h)
        else
          let m = m\<lparr>mixerOutputChannels_m := mChannelsPerFrame outputASBD\<rparr> in
          (noErr, m, h))"

text \<open>
  The loop of \<open>renderCallback\<close> from index \<open>i\<close> on. Both lists are read through
  their pointers at every step, as the code does, so the two pointers may be equal.
\<close>

function renderCallback_loop ::
  "addr \<Rightarrow> addr \<Rightarrow> UInt32 \<Rightarrow> store \<Rightarrow> fault + (OSStatus \<times> store)" where
  "renderCallback_loop inABL ioData i mem =
     (case mem ioData of
        None \<Rightarrow> Inl InvalidPointer
      | Some outL \<Rightarrow>
          if i < mNumberBuffers outL then
            (case mem inABL of
               None \<Rightarrow> Inl InvalidPointer
             | Some inL \<Rightarrow>
                 if unat i < length (mBuffers inL) \<and> unat i < length (mBuffers outL) then
                   (let inBuffer = mBuffers inL ! unat i;
                        outBuffer = mBuffers outL ! unat i
                    in if \<not> (mNumberChannels inBuffer = mNumberChannels outBuffer \<and>
                              mDataByteSize inBuffer = mDataByteSize outBuffer)
                       then Inr (kAudio_ParamError, mem)
                       else renderCallback_loop inABL ioData (i + 1)
                              (mem(ioData \<mapsto> outL\<lparr>mBuffers :=
                                 (mBuffers outL)[unat i := outBuffer\<lparr>mData := mData inBuffer\<rparr>]\<rparr>)))
                 else Inl OutOfBounds)
          else Inr (noErr, mem))"
  by pat_completeness auto

termination
proof (relation "measure (\<lambda>(inABL, ioData, i, mem).
         case mem ioData of None \<Rightarrow> 0 | Some outL \<Rightarrow> unat (mNumberBuffers outL) - unat i)")
  show "wf (measure (\<lambda>(inABL, ioData, i, mem).
         case mem ioData of None \<Rightarrow> 0 | Some outL \<Rightarrow> unat (mNumberBuffers outL) - unat i))"
    by simp
next
  fix inABL ioData :: addr and i :: UInt32 and mem :: store
    and outL inL :: AudioBufferList and inBuffer outBuffer :: AudioBuffer
  assume out: "mem ioData = Some outL" and "i < mNumberBuffers outL"
  then have lt: "unat i < unat (mNumberBuffers outL)"
    by (simp add: word_less_nat_alt)
  moreover have "unat (mNumberBuffers outL) < 2 ^ 32"
    using unsigned_less [of "mNumberBuffers outL"] by simp
  ultimately have "unat (i + 1) = Suc (unat i)"
    by (simp add: unat_word_ariths)
  with lt out
  show "((inABL, ioData, i + 1,
          mem(ioData \<mapsto> outL\<lparr>mBuffers :=
            (mBuffers outL)[unat i := outBuffer\<lparr>mData := mData inBuffer\<rparr>]\<rparr>)),
         (inABL, ioData, i, mem))
        \<in> measure (\<lambda>(inABL, ioData, i, mem).
             case mem ioData of None \<Rightarrow> 0 | Some outL \<Rightarrow> unat (mNumberBuffers outL) - unat i)"
    by simp
qed

declare renderCallback_loop.simps [simp del]

text \<open>
  \<open>pThis\<close> is the mixer the \<open>inRefCon\<close> points at. The four parameters the body
  never reads are kept in their places.
\<close>

definition renderCallback ::
  "SystemAudioMixer \<Rightarrow> addr \<Rightarrow> AudioTimeStamp \<Rightarrow> UInt32 \<Rightarrow> UInt32 \<Rightarrow> addr \<Rightarrow> store
     \<Rightarrow> fault + (OSStatus \<times> store)" where
  "renderCallback pThis ioActionFlags inTimeStamp inBusNumber inNumberFrames ioData mem =
     (let inABL = renderCallbackInputABL_m pThis in
      case mem inABL of
        None \<Rightarrow> Inl InvalidPointer
      | Some inL \<Rightarrow>
          (case mem ioData of
             None \<Rightarrow> Inl InvalidPointer
           | Some outL \<Rightarrow>
               if mNumberBuffers inL \<noteq> mNumberBuffers outL then Inr (kAudio_ParamError, mem)
               else renderCallback_loop inABL ioData 0 mem))"

text \<open>
  The two volume loops of \<open>initialize\<close> differ in the scope and the bound only: the
  loop from index \<open>i\<close> on, returning the failing status as the \<open>return\<close> in the loop
  body does.
\<close>

function volume_loop ::
  "backend \<Rightarrow> addr \<Rightarrow> AudioUnitScope \<Rightarrow> UInt32 \<Rightarrow> UInt32 \<Rightarrow> history \<Rightarrow> OSStatus \<times> history" where
  "volume_loop be unit scope n i h =
     (if i < n then
        (case api be h (AudioUnitSetParameter unit kMatrixMixerParam_Volume scope i f32_one 0) of
           (r, h) \<Rightarrow>
             if noErr \<noteq> status r then (status r, h)
             else volume_loop be unit scope n (i + 1) h)
      else (noErr, h))"
  by pat_completeness auto
termination
proof (relation "measure (\<lambda>(be, unit, scope, n, i, h). unat n - unat i)")
  show "wf (measure (\<lambda>(be, unit, scope, n, i, h). unat n - unat i))"
    by simp
next
  fix be :: backend and unit :: addr and scope :: AudioUnitScope and n i :: UInt32
    and h h' :: history
  assume "i < n"
  then have lt: "unat i < unat n"
    by (simp add: word_less_nat_alt)
  moreover have "unat n < 2 ^ 32"
    using unsigned_less [of n] by simp
  ultimately have "unat (i + 1) = Suc (unat i)"
    by (simp add: unat_word_ariths)
  with lt
  show "((be, unit, scope, n, i + 1, h'), (be, unit, scope, n, i, h))
        \<in> measure (\<lambda>(be, unit, scope, n, i, h). unat n - unat i)"
    by simp
qed

declare volume_loop.simps [simp del]

definition mixerDesc :: AudioComponentDescription where
  "mixerDesc =
     \<lparr>componentType = kAudioUnitType_Mixer,
      componentSubType = kAudioUnitSubType_MatrixMixer,
      componentManufacturer = kAudioUnitManufacturer_Apple,
      componentFlags = 0,
      componentFlagsMask = 0\<rparr>"

text \<open>\<open>this\<close> is the address of the mixer object, which becomes the callback's \<open>inRefCon\<close>.\<close>

definition initialize ::
  "backend \<Rightarrow> addr \<Rightarrow> SystemAudioMixer \<Rightarrow> history \<Rightarrow> AudioStreamBasicDescription
     \<Rightarrow> AudioStreamBasicDescription \<Rightarrow> OSStatus \<times> SystemAudioMixer \<times> history" where
  "initialize be this m h inputASBD outputASBD =
     (case api be h (AudioComponentFindNext nullptr mixerDesc) of (r, h) \<Rightarrow>
      let mixerComp = handle r in
      if mixerComp = nullptr then (kAudioUnitErr_ExtensionNotFound, m, h)
      else
      case api be h (AudioComponentInstanceNew mixerComp (mixerUnit_m m)) of (r, h) \<Rightarrow>
      let m = m\<lparr>mixerUnit_m := handle r\<rparr> in
      if noErr \<noteq> status r then (status r, m, h)
      else
      case configureMixer be m h of (st, m, h) \<Rightarrow>
      if noErr \<noteq> st then (st, m, h)
      else
      case configureStreamFormats be m h inputASBD outputASBD of (st, m, h) \<Rightarrow>
      if noErr \<noteq> st then (st, m, h)
      else
      let shouldAllocateBuffer = 0 in
      case api be h (AudioUnitSetProperty (mixerUnit_m m) kAudioUnitProperty_ShouldAllocateBuffer
                       kAudioUnitScope_Input 0 (UInt32Data shouldAllocateBuffer)) of (r, h) \<Rightarrow>
      if noErr \<noteq> status r then (status r, m, h)
      else
      let callbackStruct = RenderCallbackData this in
      case api be h (AudioUnitSetProperty (mixerUnit_m m) kAudioUnitProperty_SetRenderCallback
                       kAudioUnitScope_Global 0 callbackStruct) of (r, h) \<Rightarrow>
      if noErr \<noteq> status r then (status r, m, h)
      else
      case api be h (AudioUnitInitialize (mixerUnit_m m)) of (r, h) \<Rightarrow>
      if noErr \<noteq> status r then (status r, m, h)
      else
      case api be h (AudioUnitSetParameter (mixerUnit_m m) kMatrixMixerParam_Volume
                       kAudioUnitScope_Global 0xFFFFFFFF f32_one 0) of (r, h) \<Rightarrow>
      if noErr \<noteq> status r then (status r, m, h)
      else
      case volume_loop be (mixerUnit_m m) kAudioUnitScope_Input (mixerInputChannels_m m) 0 h of
        (st, h) \<Rightarrow>
      if noErr \<noteq> st then (st, m, h)
      else
      case volume_loop be (mixerUnit_m m) kAudioUnitScope_Output (mixerOutputChannels_m m) 0 h of
        (st, h) \<Rightarrow>
      if noErr \<noteq> st then (st, m, h)
      else (noErr, m, h))"

definition uninitialize ::
  "backend \<Rightarrow> SystemAudioMixer \<Rightarrow> history \<Rightarrow> OSStatus \<times> SystemAudioMixer \<times> history" where
  "uninitialize be m h =
     (case api be h (AudioUnitUninitialize (mixerUnit_m m)) of (r, h) \<Rightarrow>
      if noErr \<noteq> status r then (status r, m, h)
      else
      case api be h (AudioComponentInstanceDispose (mixerUnit_m m)) of (r, h) \<Rightarrow>
      if noErr \<noteq> status r then (status r, m, h)
      else (noErr, m, h))"

text \<open>
  The two indices are \<open>int\<close>, 32 bits wide; the shift and the bitwise or are taken on
  the 32-bit pattern, which is also the \<open>AudioUnitElement\<close> (a \<open>UInt32\<close>) the result
  converts to.
\<close>

definition setCrossoverVolume ::
  "backend \<Rightarrow> SystemAudioMixer \<Rightarrow> history \<Rightarrow> 32 word \<Rightarrow> 32 word \<Rightarrow> Float32
     \<Rightarrow> OSStatus \<times> SystemAudioMixer \<times> history" where
  "setCrossoverVolume be m h inputChannelIndex outputChannelIndex volume =
     (case api be h (AudioUnitSetParameter (mixerUnit_m m) kMatrixMixerParam_Volume
                       kAudioUnitScope_Global
                       (push_bit 16 inputChannelIndex OR outputChannelIndex) volume 0) of
        (r, h) \<Rightarrow>
      if noErr \<noteq> status r then (status r, m, h)
      else (noErr, m, h))"

text \<open>
  \<open>mix\<close> hands \<open>AudioUnitRender\<close> the callback bound to the mixer as it is after
  \<open>renderCallbackInputABL_\<close> has been set. A fault inside the render is a fault of \<open>mix\<close>.
\<close>

definition mix ::
  "backend \<Rightarrow> SystemAudioMixer \<Rightarrow> history \<Rightarrow> store \<Rightarrow> UInt32 \<Rightarrow> addr \<Rightarrow> addr
     \<Rightarrow> fault + (OSStatus \<times> SystemAudioMixer \<times> history \<times> store)" where
  "mix be m h mem inNumberFrames inputABL outputABL =
     (let ts = \<lparr>mSampleTime = sampleTime_m m, mFlags = kAudioTimeStampSampleTimeValid\<rparr>;
          m = m\<lparr>renderCallbackInputABL_m := inputABL\<rparr>;
          c = AudioUnitRender (mixerUnit_m m) nullptr ts 0 inNumberFrames outputABL
      in case render be h (renderCallback m) c mem of
           Inl f \<Rightarrow> Inl f
         | Inr (st, mem) \<Rightarrow>
             let h = h @ [(c, \<lparr>status = st, handle = nullptr\<rparr>)];
                 m = (if noErr = st
                      then m\<lparr>sampleTime_m := f64_add_u32 (sampleTime_m m) inNumberFrames\<rparr>
                      else m)
             in Inr (st, m, h, mem))"

section \<open>Runs of operations\<close>

text \<open>
  The public operations as data, and a run of them on one mixer, threading the mixer,
  the history and the memory, and collecting the statuses returned.
\<close>

datatype operation =
    Initialize addr AudioStreamBasicDescription AudioStreamBasicDescription
  | Uninitialize
  | SetCrossoverVolume "32 word" "32 word" Float32
  | Mix UInt32 addr addr

fun perform ::
  "backend \<Rightarrow> operation \<Rightarrow> SystemAudioMixer \<Rightarrow> history \<Rightarrow> store
     \<Rightarrow> fault + (OSStatus \<times> SystemAudioMixer \<times> history \<times> store)" where
  "perform be (Initialize this inputASBD outputASBD) m h mem =
     (case initialize be this m h inputASBD outputASBD of (st, m, h) \<Rightarrow> Inr (st, m, h, mem))"
| "perform be Uninitialize m h mem =
     (case uninitialize be m h of (st, m, h) \<Rightarrow> Inr (st, m, h, mem))"
| "perform be (SetCrossoverVolume i j volume) m h mem =
     (case setCrossoverVolume be m h i j volume of (st, m, h) \<Rightarrow> Inr (st, m, h, mem))"
| "perform be (Mix n inputABL outputABL) m h mem = mix be m h mem n inputABL outputABL"

fun perform_all ::
  "backend \<Rightarrow> operation list \<Rightarrow> SystemAudioMixer \<Rightarrow> history \<Rightarrow> store
     \<Rightarrow> fault + (OSStatus list \<times> SystemAudioMixer \<times> history \<times> store)" where
  "perform_all be [] m h mem = Inr ([], m, h, mem)"
| "perform_all be (op # ops) m h mem =
     (case perform be op m h mem of
        Inl f \<Rightarrow> Inl f
      | Inr (st, m, h, mem) \<Rightarrow>
          (case perform_all be ops m h mem of
             Inl f \<Rightarrow> Inl f
           | Inr (sts, m, h, mem) \<Rightarrow> Inr (st # sts, m, h, mem)))"

text \<open>The frames the successful \<open>mix\<close> calls of a run asked for, summed.\<close>

fun frames_rendered :: "operation list \<Rightarrow> OSStatus list \<Rightarrow> nat" where
  "frames_rendered (Mix n inputABL outputABL # ops) (st # sts) =
     (if st = noErr then unat n else 0) + frames_rendered ops sts"
| "frames_rendered (op # ops) (st # sts) = frames_rendered ops sts"
| "frames_rendered ops sts = 0"

section \<open>Vocabulary of the properties\<close>

text \<open>
  \<open>aliased i k ins outs\<close> is the output array \<open>outs\<close> in which the buffers at the
  indices from \<open>i\<close> up to, not including, \<open>k\<close> have the data pointer of the input
  buffer at the same index, and nothing else is changed.
\<close>

definition aliased ::
  "nat \<Rightarrow> nat \<Rightarrow> AudioBuffer list \<Rightarrow> AudioBuffer list \<Rightarrow> AudioBuffer list" where
  "aliased i k ins outs =
     map (\<lambda>j. if i \<le> j \<and> j < k then (outs ! j)\<lparr>mData := mData (ins ! j)\<rparr> else outs ! j)
       [0..<length outs]"

definition shapes_agree :: "AudioBuffer \<Rightarrow> AudioBuffer \<Rightarrow> bool" where
  "shapes_agree a b \<longleftrightarrow>
     mNumberChannels a = mNumberChannels b \<and> mDataByteSize a = mDataByteSize b"

text \<open>What an operation returned, when it did not fault: its status, and the clock it left.\<close>

fun returned_status :: "fault + ('s \<times> 'a) \<Rightarrow> 's option" where
  "returned_status (Inl f) = None"
| "returned_status (Inr (st, x)) = Some st"

fun returned_clock :: "fault + ('s \<times> SystemAudioMixer \<times> 'a) \<Rightarrow> Float64 option" where
  "returned_clock (Inl f) = None"
| "returned_clock (Inr (st, m, x)) = Some (sampleTime_m m)"

text \<open>
  A call with its reply succeeded when the component search found a component, or, for any
  other call, the status is \<open>noErr\<close>. The status \<open>initialize\<close> returns for a call
  that did not succeed is the call's own, and \<open>kAudioUnitErr_ExtensionNotFound\<close> for the
  search.
\<close>

fun succeeded :: "call \<times> reply \<Rightarrow> bool" where
  "succeeded (AudioComponentFindNext a d, r) = (handle r \<noteq> nullptr)"
| "succeeded (c, r) = (noErr = status r)"

fun failure_status :: "call \<times> reply \<Rightarrow> OSStatus" where
  "failure_status (AudioComponentFindNext a d, r) = kAudioUnitErr_ExtensionNotFound"
| "failure_status (c, r) = status r"

text \<open>
  \<open>abort_shape es st\<close>: in the calls \<open>es\<close> every call succeeded but possibly the last;
  \<open>st\<close> is the status of the last call when that one failed, and \<open>noErr\<close> otherwise.
\<close>

fun abort_shape :: "history \<Rightarrow> OSStatus \<Rightarrow> bool" where
  "abort_shape [] st = (st = noErr)"
| "abort_shape (e # es) st =
     (if succeeded e then abort_shape es st else es = [] \<and> st = failure_status e)"

text \<open>
  The contract of a configuration sequence in the specification's words: the calls are
  made in order, and the first failure ends the sequence with that failure's status.
\<close>

fun run_steps_spec :: "backend \<Rightarrow> history \<Rightarrow> call list \<Rightarrow> OSStatus \<times> history" where
  "run_steps_spec be h [] = (noErr, h)"
| "run_steps_spec be h (c # cs) =
     (case api be h c of (r, h) \<Rightarrow>
        if succeeded (c, r) then run_steps_spec be h cs else (failure_status (c, r), h))"

text \<open>The unity-gain calls for the channels \<open>i\<close> up to, not including, \<open>n\<close> of a scope.\<close>

definition volume_calls :: "addr \<Rightarrow> AudioUnitScope \<Rightarrow> nat \<Rightarrow> nat \<Rightarrow> call list" where
  "volume_calls unit scope i n =
     map (\<lambda>j. AudioUnitSetParameter unit kMatrixMixerParam_Volume scope (of_nat j) f32_one 0) [i..<n]"

text \<open>The mixing unit that \<open>AudioComponentInstanceNew\<close> hands out during \<open>initialize\<close>.\<close>

definition made_unit :: "backend \<Rightarrow> history \<Rightarrow> SystemAudioMixer \<Rightarrow> addr" where
  "made_unit be h m =
     (let find = AudioComponentFindNext nullptr mixerDesc;
          (found, h) = api be h find;
          new = AudioComponentInstanceNew (handle found) (mixerUnit_m m);
          (made, h) = api be h new
      in handle made)"

text \<open>
  The configuration steps of \<open>initialize\<close> in the specification's order: find the
  component, create the instance, one input and one output bus, the two stream formats,
  no buffer allocation on the input scope, the render callback, activation, then unity
  for the global gain and for every input and every output channel.
\<close>

definition initialize_steps_spec ::
  "backend \<Rightarrow> history \<Rightarrow> addr \<Rightarrow> SystemAudioMixer \<Rightarrow> AudioStreamBasicDescription
     \<Rightarrow> AudioStreamBasicDescription \<Rightarrow> call list" where
  "initialize_steps_spec be h this m inputASBD outputASBD =
     (let find = AudioComponentFindNext nullptr mixerDesc;
          found = fst (api be h find);
          new = AudioComponentInstanceNew (handle found) (mixerUnit_m m);
          unit = made_unit be h m
      in [find, new,
          AudioUnitSetProperty unit kAudioUnitProperty_BusCount kAudioUnitScope_Input 0 (UInt32Data 1),
          AudioUnitSetProperty unit kAudioUnitProperty_BusCount kAudioUnitScope_Output 0 (UInt32Data 1),
          AudioUnitSetProperty unit kAudioUnitProperty_StreamFormat kAudioUnitScope_Input 0
            (StreamFormatData inputASBD),
          AudioUnitSetProperty unit kAudioUnitProperty_StreamFormat kAudioUnitScope_Output 0
            (StreamFormatData outputASBD),
          AudioUnitSetProperty unit kAudioUnitProperty_ShouldAllocateBuffer kAudioUnitScope_Input 0
            (UInt32Data 0),
          AudioUnitSetProperty unit kAudioUnitProperty_SetRenderCallback kAudioUnitScope_Global 0
            (RenderCallbackData this),
          AudioUnitInitialize unit,
          AudioUnitSetParameter unit kMatrixMixerParam_Volume kAudioUnitScope_Global 0xFFFFFFFF
            f32_one 0]
         @ volume_calls unit kAudioUnitScope_Input 0 (unat (mChannelsPerFrame inputASBD))
         @ volume_calls unit kAudioUnitScope_Output 0 (unat (mChannelsPerFrame outputASBD)))"





section \<open>Test doubles\<close>

text \<open>
  A render that forwards the pull request: it calls the render callback once, on the
  output buffer list it was given, and returns the callback's status.
\<close>

fun forwarding_render :: "history \<Rightarrow> pull \<Rightarrow> call \<Rightarrow> store \<Rightarrow> fault + (OSStatus \<times> store)" where
  "forwarding_render h cb (AudioUnitRender unit flags ts bus frames ioData) mem =
     cb flags ts bus frames ioData mem"
| "forwarding_render h cb c mem = Inr (kAudio_ParamError, mem)"

text \<open>
  A forwarding render that first checks the request's time stamp: the sample time must be
  \<open>t\<close> and be flagged valid, or the render fails without pulling.
\<close>

fun expecting_render ::
  "Float64 \<Rightarrow> history \<Rightarrow> pull \<Rightarrow> call \<Rightarrow> store \<Rightarrow> fault + (OSStatus \<times> store)" where
  "expecting_render t h cb (AudioUnitRender unit flags ts bus frames ioData) mem =
     (if mSampleTime ts = t \<and> mFlags ts = kAudioTimeStampSampleTimeValid
      then cb flags ts bus frames ioData mem
      else Inr (kAudio_ParamError, mem))"
| "expecting_render t h cb c mem = Inr (kAudio_ParamError, mem)"

text \<open>A render that returns a fixed status without pulling, leaving the memory alone.\<close>

definition fixed_render ::
  "OSStatus \<Rightarrow> history \<Rightarrow> pull \<Rightarrow> call \<Rightarrow> store \<Rightarrow> fault + (OSStatus \<times> store)" where
  "fixed_render st h cb c mem = Inr (st, mem)"

text \<open>
  A capability whose call number \<open>k\<close> (counting from 0 over the history) fails with status
  \<open>st\<close> and a null handle, every other call succeeding with handle \<open>0x7000\<close>.
\<close>

definition failing_at ::
  "nat \<Rightarrow> OSStatus \<Rightarrow> (history \<Rightarrow> pull \<Rightarrow> call \<Rightarrow> store \<Rightarrow> fault + (OSStatus \<times> store))
     \<Rightarrow> backend" where
  "failing_at k st rnd =
     \<lparr>respond = (\<lambda>h c. if length h = k then \<lparr>status = st, handle = nullptr\<rparr>
                          else \<lparr>status = noErr, handle = 0x7000\<rparr>),
      render = rnd\<rparr>"

definition accepting ::
  "(history \<Rightarrow> pull \<Rightarrow> call \<Rightarrow> store \<Rightarrow> fault + (OSStatus \<times> store)) \<Rightarrow> backend" where
  "accepting rnd = \<lparr>respond = (\<lambda>h c. \<lparr>status = noErr, handle = 0x7000\<rparr>), render = rnd\<rparr>"

definition mixer_at :: "Float64 \<Rightarrow> addr \<Rightarrow> SystemAudioMixer" where
  "mixer_at t inputABL =
     \<lparr>mixerUnit_m = 0x7000, mixerInputChannels_m = 2, mixerOutputChannels_m = 2,
      sampleTime_m = t, renderCallbackInputABL_m = inputABL\<rparr>"

definition buffer :: "UInt32 \<Rightarrow> UInt32 \<Rightarrow> addr \<Rightarrow> AudioBuffer" where
  "buffer channels bytes data =
     \<lparr>mNumberChannels = channels, mDataByteSize = bytes, mData = data\<rparr>"

definition buffer_list :: "AudioBuffer list \<Rightarrow> AudioBufferList" where
  "buffer_list bs = \<lparr>mNumberBuffers = of_nat (length bs), mBuffers = bs\<rparr>"

definition stereo_in :: AudioBufferList where
  "stereo_in = buffer_list [buffer 1 2048 0x1000, buffer 1 2048 0x2000]"

definition stereo_out :: AudioBufferList where
  "stereo_out = buffer_list [buffer 1 2048 0, buffer 1 2048 0]"

definition stereo_out_odd :: AudioBufferList where
  "stereo_out_odd = buffer_list [buffer 1 2048 0, buffer 1 1024 0]"

definition mono_out :: AudioBufferList where
  "mono_out = buffer_list [buffer 1 2048 0]"

definition memory :: "AudioBufferList \<Rightarrow> AudioBufferList \<Rightarrow> store" where
  "memory inL outL = [0x100 \<mapsto> inL, 0x200 \<mapsto> outL]"

definition stereo :: AudioStreamBasicDescription where
  "stereo =
     \<lparr>mSampleRate = 0x40E7700000000000, mFormatID = 0x6C70636D, mFormatFlags = 41,
      mBytesPerPacket = 4, mFramesPerPacket = 1, mBytesPerFrame = 4, mChannelsPerFrame = 2,
      mBitsPerChannel = 32, mReserved = 0\<rparr>"

text \<open>
  Two runs of operations: a short one, and one of \<open>2^21 + 2\<close> calls of \<open>mix\<close> whose
  frame counts sum to \<open>2^53 + 1\<close>.
\<close>

definition clock_overrun :: "operation list" where
  "clock_overrun =
     replicate 2097152 (Mix 0xFFFFFFFF nullptr nullptr)
     @ [Mix 2097152 nullptr nullptr, Mix 1 nullptr nullptr]"

definition short_run :: "operation list" where
  "short_run = [Mix 512 0x100 0x200, SetCrossoverVolume 0 1 f32_one, Mix 256 0x100 0x200]"

section \<open>AutoCFType: ownership transfer\<close>

lemma resets_then_dtor:
  "AutoCFType_dtor (fst (resets w ts released)) (snd (resets w ts released)) =
     released @ filter (\<lambda>t. t \<noteq> nullptr) (type_m w # ts)"
proof (induction ts arbitrary: w released)
  case Nil
  show ?case by (simp add: AutoCFType_dtor_def)
next
  case (Cons t ts)
  show ?case by (simp add: Cons.IH reset_def)
qed

text \<open>
  C10. \<open>release()\<close> returns the held handle and leaves the wrapper holding null. The
  destructor of the released wrapper calls \<open>CFRelease\<close> on nothing, and so does a
  \<open>reset\<close> that follows; after any run of later resets and the destructor, the handles
  released are exactly the non-null ones those resets were given, so the handle taken out
  is released by the wrapper only if the caller gave it back. \<open>get()\<close> returns the held
  handle and the wrapper as it was.
\<close>

theorem release_transfers_ownership:
  "fst (release w) = type_m w
   \<and> type_m (snd (release w)) = nullptr
   \<and> AutoCFType_dtor (snd (release w)) released = released
   \<and> snd (reset (snd (release w)) t released) = released
   \<and> AutoCFType_dtor (fst (resets (snd (release w)) ts released))
        (snd (resets (snd (release w)) ts released)) = released @ filter (\<lambda>t. t \<noteq> nullptr) ts
   \<and> get w = (type_m w, w)"
proof -
  have "type_m (snd (release w)) = nullptr"
    by (simp add: release_def)
  then have "AutoCFType_dtor (fst (resets (snd (release w)) ts released))
        (snd (resets (snd (release w)) ts released)) = released @ filter (\<lambda>t. t \<noteq> nullptr) ts"
    by (simp add: resets_then_dtor)
  then show ?thesis
    by (simp add: release_def AutoCFType_dtor_def reset_def get_def)
qed

section \<open>The zero-copy supply routine\<close>

text \<open>A \<open>UInt32\<close> loop counter below its bound does not wrap when incremented.\<close>

lemma unat_increment:
  fixes i n :: UInt32
  assumes "i < n"
  shows "unat (i + 1) = Suc (unat i)"
proof -
  from assms have "unat i < unat n"
    by (simp add: word_less_nat_alt)
  moreover have "unat n < 2 ^ 32"
    using unsigned_less [of n] by simp
  ultimately have "unat i + 1 < 2 ^ 32"
    by simp
  then show ?thesis
    by (simp add: unat_word_ariths)
qed

lemma upt_2: "[0..<2] = [0, 1]" by (simp add: upt_rec)

lemma length_aliased [simp]: "length (aliased i k ins outs) = length outs"
  by (simp add: aliased_def)

lemma nth_aliased:
  "j < length outs \<Longrightarrow> aliased i k ins outs ! j =
     (if i \<le> j \<and> j < k then (outs ! j)\<lparr>mData := mData (ins ! j)\<rparr> else outs ! j)"
  by (simp add: aliased_def)

lemma aliased_empty [simp]: "aliased i i ins outs = outs"
  by (rule nth_equalityI) (auto simp: nth_aliased)

lemma aliased_self [simp]: "aliased i k xs xs = xs"
  by (rule nth_equalityI) (simp_all add: nth_aliased)

lemma aliased_step:
  assumes "i < k" "i < length outs"
  shows "aliased (Suc i) k ins (outs[i := (outs ! i)\<lparr>mData := mData (ins ! i)\<rparr>]) = aliased i k ins outs"
proof (rule nth_equalityI)
  show "length (aliased (Suc i) k ins (outs[i := (outs ! i)\<lparr>mData := mData (ins ! i)\<rparr>])) = length (aliased i k ins outs)"
    by simp
next
  fix j assume "j < length (aliased (Suc i) k ins (outs[i := (outs ! i)\<lparr>mData := mData (ins ! i)\<rparr>]))"
  then have j: "j < length outs" by simp
  show "aliased (Suc i) k ins (outs[i := (outs ! i)\<lparr>mData := mData (ins ! i)\<rparr>]) ! j = aliased i k ins outs ! j"
    using j assms by (cases "j = i") (auto simp: nth_aliased nth_list_update)
qed

lemma of_nat_less_u32:
  fixes n :: UInt32
  assumes "i < unat n"
  shows "(of_nat i :: UInt32) < n" "unat (of_nat i :: UInt32) = i"
proof -
  have "unat n < 2 ^ 32" using unsigned_less [of n] by simp
  with assms have "i < 2 ^ 32" by simp
  then show u: "unat (of_nat i :: UInt32) = i"
    by (simp add: unat_of_nat)
  with assms show "(of_nat i :: UInt32) < n"
    by (simp add: word_less_nat_alt)
qed

lemma loop_advance:
  assumes "mem inA = Some inL" "mem outA = Some outL"
    and "i \<le> k" "k \<le> unat (mNumberBuffers outL)"
    and "k \<le> length (mBuffers inL)" "k \<le> length (mBuffers outL)"
    and "\<forall>j. i \<le> j \<and> j < k \<longrightarrow> shapes_agree (mBuffers inL ! j) (mBuffers outL ! j)"
  shows "renderCallback_loop inA outA (of_nat i) mem =
         renderCallback_loop inA outA (of_nat k)
           (mem(outA \<mapsto> outL\<lparr>mBuffers := aliased i k (mBuffers inL) (mBuffers outL)\<rparr>))"
  using assms
proof (induction "k - i" arbitrary: i mem outL)
  case 0
  then have "i = k" by simp
  with 0 show ?case by (simp add: map_upd_triv)
next
  case (Suc d)
  let ?outs = "mBuffers outL" and ?ins = "mBuffers inL"
  let ?outL1 = "outL\<lparr>mBuffers := ?outs[i := (?outs ! i)\<lparr>mData := mData (?ins ! i)\<rparr>]\<rparr>"
  let ?mem1 = "mem(outA \<mapsto> ?outL1)"
  from Suc have ik: "i < k" by simp
  with Suc.prems have iu: "i < unat (mNumberBuffers outL)" and il: "i < length ?ins" "i < length ?outs"
    by simp_all
  have agree: "shapes_agree (?ins ! i) (?outs ! i)"
    using Suc.prems(7) ik by simp
  have step: "renderCallback_loop inA outA (of_nat i) mem =
              renderCallback_loop inA outA (of_nat (Suc i)) ?mem1"
    using Suc.prems(1,2) of_nat_less_u32 [OF iu] il agree
    by (subst renderCallback_loop.simps) (simp add: shapes_agree_def Let_def add.commute)
  have in1: "?mem1 inA = Some inL"
  proof (cases "inA = outA")
    case True
    with Suc.prems(1,2) have "inL = outL" by simp
    then have "?outL1 = outL" using il by (simp add: list_update_same_conv)
    with True Suc.prems(2) \<open>inL = outL\<close> show ?thesis by simp
  next
    case False
    with Suc.prems(1) show ?thesis by simp
  qed
  have eq: "?mem1(outA \<mapsto> ?outL1\<lparr>mBuffers := aliased (Suc i) k ?ins (mBuffers ?outL1)\<rparr>) =
             mem(outA \<mapsto> outL\<lparr>mBuffers := aliased i k ?ins ?outs\<rparr>)"
    using aliased_step [OF ik il(2), of ?ins] by simp
  note step
  also have "renderCallback_loop inA outA (of_nat (Suc i)) ?mem1 =
        renderCallback_loop inA outA (of_nat k)
          (?mem1(outA \<mapsto> ?outL1\<lparr>mBuffers := aliased (Suc i) k ?ins (mBuffers ?outL1)\<rparr>))"
  proof (rule Suc.hyps(1))
    show "d = k - Suc i" using Suc.hyps(2) by simp
    show "?mem1 inA = Some inL" by (rule in1)
    show "?mem1 outA = Some ?outL1" by simp
    show "Suc i \<le> k" using ik by simp
    show "k \<le> unat (mNumberBuffers ?outL1)" using Suc.prems(4) by simp
    show "k \<le> length ?ins" by (rule Suc.prems(5))
    show "k \<le> length (mBuffers ?outL1)" using Suc.prems(6) by simp
    show "\<forall>j. Suc i \<le> j \<and> j < k \<longrightarrow> shapes_agree (?ins ! j) (mBuffers ?outL1 ! j)"
      using Suc.prems(7) by (auto simp: nth_list_update shapes_agree_def)
  qed
  also note eq
  finally show ?case .
qed


lemma loop_exit:
  assumes "mem ioData = Some outL"
  shows "renderCallback_loop inA ioData (mNumberBuffers outL) mem = Inr (noErr, mem)"
  using assms by (subst renderCallback_loop.simps) simp

lemma loop_mismatch:
  assumes "mem inA = Some inL" "mem ioData = Some outL"
    and "i < unat (mNumberBuffers outL)" "i < length (mBuffers inL)" "i < length (mBuffers outL)"
    and "\<not> shapes_agree (mBuffers inL ! i) (mBuffers outL ! i)"
  shows "renderCallback_loop inA ioData (of_nat i) mem = Inr (kAudio_ParamError, mem)"
  using assms of_nat_less_u32 [OF assms(3)]
  by (subst renderCallback_loop.simps) (simp add: shapes_agree_def Let_def)

lemma aliased_keeps_input:
  assumes "mem inA = Some inL" "mem outA = Some outL"
  shows "(mem(outA \<mapsto> outL\<lparr>mBuffers := aliased i k (mBuffers inL) (mBuffers outL)\<rparr>)) inA = Some inL"
proof (cases "inA = outA")
  case True
  with assms have "inL = outL" by simp
  with True show ?thesis by simp
next
  case False
  with assms show ?thesis by simp
qed

lemma supply_aliases:
  assumes "mem (renderCallbackInputABL_m pThis) = Some inL" and "mem ioData = Some outL"
    and "mNumberBuffers inL = mNumberBuffers outL"
    and "unat (mNumberBuffers outL) \<le> length (mBuffers inL)"
    and "unat (mNumberBuffers outL) \<le> length (mBuffers outL)"
    and "\<forall>j < unat (mNumberBuffers outL).
           mNumberChannels (mBuffers inL ! j) = mNumberChannels (mBuffers outL ! j) \<and>
           mDataByteSize (mBuffers inL ! j) = mDataByteSize (mBuffers outL ! j)"
  shows "renderCallback pThis ioActionFlags inTimeStamp inBusNumber inNumberFrames ioData mem =
           Inr (noErr, mem(ioData \<mapsto> outL\<lparr>mBuffers :=
                  aliased 0 (unat (mNumberBuffers outL)) (mBuffers inL) (mBuffers outL)\<rparr>))
         \<and> (\<forall>j < unat (mNumberBuffers outL).
               mData (aliased 0 (unat (mNumberBuffers outL)) (mBuffers inL) (mBuffers outL) ! j) =
               mData (mBuffers inL ! j))"
proof -
  let ?n = "unat (mNumberBuffers outL)"
  let ?inA = "renderCallbackInputABL_m pThis"
  let ?outL' = "outL\<lparr>mBuffers := aliased 0 ?n (mBuffers inL) (mBuffers outL)\<rparr>"
  let ?mem' = "mem(ioData \<mapsto> ?outL')"
  have "renderCallback pThis ioActionFlags inTimeStamp inBusNumber inNumberFrames ioData mem =
        renderCallback_loop ?inA ioData 0 mem"
    using assms(1-3) by (simp add: renderCallback_def)
  also have "\<dots> = renderCallback_loop ?inA ioData (of_nat ?n) ?mem'"
    using loop_advance [where mem = mem and inA = ?inA and outA = ioData and inL = inL
        and outL = outL and i = 0 and k = ?n] assms
    by (simp add: shapes_agree_def)
  also have "\<dots> = renderCallback_loop ?inA ioData (mNumberBuffers ?outL') ?mem'"
    by simp
  also have "\<dots> = Inr (noErr, ?mem')"
    by (rule loop_exit) simp
  finally have run: "renderCallback pThis ioActionFlags inTimeStamp inBusNumber inNumberFrames ioData mem =
        Inr (noErr, ?mem')" .
  have "\<forall>j < ?n. mData (aliased 0 ?n (mBuffers inL) (mBuffers outL) ! j) = mData (mBuffers inL ! j)"
    using assms(5) by (simp add: nth_aliased)
  with run show ?thesis by simp
qed

text \<open>
  C4. With different buffer counts \<open>renderCallback\<close> returns \<open>kAudio_ParamError\<close> and
  leaves the memory as it was. With equal counts and the first pair that disagrees in
  channel count or byte size at index \<open>i\<close>, it returns \<open>kAudio_ParamError\<close>; the
  output buffers below \<open>i\<close> then have the input buffers' data pointers, and the output
  buffers from \<open>i\<close> on are as they were.
\<close>

theorem renderCallback_rejects:
  assumes "mem (renderCallbackInputABL_m pThis) = Some inL" and "mem ioData = Some outL"
  shows "(mNumberBuffers inL \<noteq> mNumberBuffers outL \<longrightarrow>
            renderCallback pThis ioActionFlags inTimeStamp inBusNumber inNumberFrames ioData mem =
              Inr (kAudio_ParamError, mem))
         \<and> (mNumberBuffers inL = mNumberBuffers outL \<and> i < unat (mNumberBuffers outL) \<and>
            i < length (mBuffers inL) \<and> i < length (mBuffers outL) \<and>
            (\<forall>j < i. mNumberChannels (mBuffers inL ! j) = mNumberChannels (mBuffers outL ! j) \<and>
                     mDataByteSize (mBuffers inL ! j) = mDataByteSize (mBuffers outL ! j)) \<and>
            \<not> (mNumberChannels (mBuffers inL ! i) = mNumberChannels (mBuffers outL ! i) \<and>
               mDataByteSize (mBuffers inL ! i) = mDataByteSize (mBuffers outL ! i)) \<longrightarrow>
            renderCallback pThis ioActionFlags inTimeStamp inBusNumber inNumberFrames ioData mem =
              Inr (kAudio_ParamError, mem(ioData \<mapsto> outL\<lparr>mBuffers :=
                     aliased 0 i (mBuffers inL) (mBuffers outL)\<rparr>))
            \<and> (\<forall>j < length (mBuffers outL).
                  aliased 0 i (mBuffers inL) (mBuffers outL) ! j =
                    (if j < i then (mBuffers outL ! j)\<lparr>mData := mData (mBuffers inL ! j)\<rparr>
                     else mBuffers outL ! j)))"
proof (intro conjI impI)
  assume "mNumberBuffers inL \<noteq> mNumberBuffers outL"
  with assms show "renderCallback pThis ioActionFlags inTimeStamp inBusNumber inNumberFrames ioData mem =
              Inr (kAudio_ParamError, mem)"
    by (simp add: renderCallback_def)
next
  assume h: "mNumberBuffers inL = mNumberBuffers outL \<and> i < unat (mNumberBuffers outL) \<and>
            i < length (mBuffers inL) \<and> i < length (mBuffers outL) \<and>
            (\<forall>j < i. mNumberChannels (mBuffers inL ! j) = mNumberChannels (mBuffers outL ! j) \<and>
                     mDataByteSize (mBuffers inL ! j) = mDataByteSize (mBuffers outL ! j)) \<and>
            \<not> (mNumberChannels (mBuffers inL ! i) = mNumberChannels (mBuffers outL ! i) \<and>
               mDataByteSize (mBuffers inL ! i) = mDataByteSize (mBuffers outL ! i))"
  let ?inA = "renderCallbackInputABL_m pThis"
  let ?outL' = "outL\<lparr>mBuffers := aliased 0 i (mBuffers inL) (mBuffers outL)\<rparr>"
  let ?mem' = "mem(ioData \<mapsto> ?outL')"
  have in': "?mem' ?inA = Some inL"
    using assms by (rule aliased_keeps_input)
  have "renderCallback pThis ioActionFlags inTimeStamp inBusNumber inNumberFrames ioData mem =
        renderCallback_loop ?inA ioData 0 mem"
    using assms h by (simp add: renderCallback_def)
  also have "\<dots> = renderCallback_loop ?inA ioData (of_nat i) ?mem'"
    using loop_advance [where mem = mem and inA = ?inA and outA = ioData and inL = inL
        and outL = outL and i = 0 and k = i] assms h
    by (simp add: shapes_agree_def)
  also have "\<dots> = Inr (kAudio_ParamError, ?mem')"
  proof (rule loop_mismatch)
    show "?mem' ?inA = Some inL" by (rule in')
    show "?mem' ioData = Some ?outL'" by simp
    show "i < unat (mNumberBuffers ?outL')" using h by simp
    show "i < length (mBuffers inL)" using h by simp
    show "i < length (mBuffers ?outL')" using h by simp
    show "\<not> shapes_agree (mBuffers inL ! i) (mBuffers ?outL' ! i)"
      using h by (simp add: nth_aliased shapes_agree_def)
  qed
  finally show "renderCallback pThis ioActionFlags inTimeStamp inBusNumber inNumberFrames ioData mem =
              Inr (kAudio_ParamError, ?mem')" .
next
  show "\<forall>j < length (mBuffers outL).
                  aliased 0 i (mBuffers inL) (mBuffers outL) ! j =
                    (if j < i then (mBuffers outL ! j)\<lparr>mData := mData (mBuffers inL ! j)\<rparr>
                     else mBuffers outL ! j)"
    by (simp add: nth_aliased)
qed

theorem renderCallback_rejects_witness:
  "renderCallback (mixer_at 0 0x100) nullptr \<lparr>mSampleTime = 0, mFlags = 1\<rparr> 0 512 0x200
     (memory stereo_in mono_out) =
   Inr (kAudio_ParamError, memory stereo_in mono_out)
   \<and> renderCallback (mixer_at 0 0x100) nullptr \<lparr>mSampleTime = 0, mFlags = 1\<rparr> 0 512 0x200
     (memory stereo_in stereo_out_odd) =
   Inr (kAudio_ParamError,
        memory stereo_in (buffer_list [buffer 1 2048 0x1000, buffer 1 1024 0]))"
  using renderCallback_rejects [where mem = "memory stereo_in mono_out" and pThis = "mixer_at 0 0x100"
      and inL = stereo_in and ioData = "0x200" and outL = mono_out and ioActionFlags = nullptr
      and inTimeStamp = "\<lparr>mSampleTime = 0, mFlags = 1\<rparr>" and inBusNumber = 0 and inNumberFrames = 512]
    renderCallback_rejects [where mem = "memory stereo_in stereo_out_odd" and pThis = "mixer_at 0 0x100"
      and inL = stereo_in and ioData = "0x200" and outL = stereo_out_odd and ioActionFlags = nullptr
      and inTimeStamp = "\<lparr>mSampleTime = 0, mFlags = 1\<rparr>" and inBusNumber = 0 and inNumberFrames = 512
      and i = 1]
  by (simp add: memory_def mixer_at_def stereo_in_def stereo_out_odd_def mono_out_def buffer_list_def buffer_def
      aliased_def upt_2 less_2_cases_iff)

section \<open>Rounding of the sample clock\<close>

lemma bitlen_le_iff: "bitlen x \<le> k \<longleftrightarrow> x < 2 ^ k"
proof (induction k arbitrary: x)
  case 0
  show ?case by (subst bitlen.simps) simp
next
  case (Suc k)
  have "bitlen x \<le> Suc k \<longleftrightarrow> x = 0 \<or> bitlen (x div 2) \<le> k"
    by (subst bitlen.simps) simp
  also have "\<dots> \<longleftrightarrow> x = 0 \<or> x div 2 < 2 ^ k"
    by (simp add: Suc.IH)
  also have "\<dots> \<longleftrightarrow> x < 2 ^ Suc k"
    by auto
  finally show ?case .
qed

lemma less_pow_bitlen: "x < 2 ^ bitlen x"
  using bitlen_le_iff [of x "bitlen x"] by simp

lemma pow_bitlen_le: "0 < bitlen x \<Longrightarrow> 2 ^ (bitlen x - 1) \<le> x"
  using bitlen_le_iff [of x "bitlen x - 1"] by (simp add: not_less [symmetric])

lemma bitlen_mono: "x \<le> y \<Longrightarrow> bitlen x \<le> bitlen y"
  using bitlen_le_iff [of x "bitlen y"] less_pow_bitlen [of y] by simp

lemma bitlen_eqI: "2 ^ a \<le> y \<Longrightarrow> y < 2 ^ Suc a \<Longrightarrow> bitlen y = Suc a"
  using bitlen_le_iff [of y "Suc a"] bitlen_le_iff [of y a] by simp


lemma f64_round_exact:
  assumes "x \<le> 2 ^ 53"
  shows "f64_round x = x"
proof (cases "x < 2 ^ 53")
  case True
  then show ?thesis by (simp add: f64_round_def)
next
  case False
  with assms have x: "x = 2 ^ 53" by simp
  have "bitlen ((2::nat) ^ 53) = Suc 53"
    by (rule bitlen_eqI) simp_all
  then show ?thesis
    by (simp add: f64_round_def x)
qed

lemma f64_round_tie: "f64_round (2 ^ 53 + 1) = 2 ^ 53"
proof -
  have "bitlen ((2::nat) ^ 53 + 1) = Suc 53"
    by (rule bitlen_eqI) simp_all
  then show ?thesis
    by (simp add: f64_round_def)
qed

lemma floor_multiple:
  fixes m v x :: nat
  assumes "0 < m" "m dvd v" "v \<le> x"
  shows "v \<le> (x div m) * m"
proof -
  from assms(2) obtain c where "v = m * c" ..
  then have v: "v = c * m" by simp
  with assms(1,3) have "c \<le> x div m"
    by (simp add: less_eq_div_iff_mult_less_eq)
  with v show ?thesis by simp
qed

lemma big_bitlen:
  assumes "2 ^ 53 \<le> x"
  shows "54 \<le> bitlen x"
  using assms bitlen_le_iff [of x 53] by simp

lemma f64_round_floor:
  assumes "2 ^ 53 \<le> x"
  shows "(x div 2 ^ (bitlen x - 53)) * 2 ^ (bitlen x - 53) \<le> f64_round x"
  using assms by (simp add: f64_round_def Let_def)

lemma f64_round_dvd:
  assumes "2 ^ 53 \<le> x"
  shows "2 ^ (bitlen x - 53) dvd f64_round x"
  using assms by (simp add: f64_round_def Let_def)

lemma f64_round_ge:
  assumes rep: "f64_round v = v" and le: "v \<le> x"
  shows "v \<le> f64_round x"
proof (cases "x < 2 ^ 53")
  case True
  with le show ?thesis by (simp add: f64_round_def)
next
  case False
  then have big: "2 ^ 53 \<le> x" by simp
  let ?e = "bitlen x - 53"
  have b: "54 \<le> bitlen x" using big by (rule big_bitlen)
  have floor: "(x div 2 ^ ?e) * 2 ^ ?e \<le> f64_round x"
    using big by (rule f64_round_floor)
  have "v \<le> (x div 2 ^ ?e) * 2 ^ ?e"
  proof (cases "bitlen v < bitlen x")
    case True
    then have "bitlen v \<le> bitlen x - 1" by simp
    then have "v < 2 ^ (bitlen x - 1)" by (simp add: bitlen_le_iff)
    moreover have "(2::nat) ^ (bitlen x - 1) \<le> (x div 2 ^ ?e) * 2 ^ ?e"
    proof (rule floor_multiple)
      show "(0::nat) < 2 ^ ?e" by simp
      show "(2::nat) ^ ?e dvd 2 ^ (bitlen x - 1)" by (rule le_imp_power_dvd) simp
      show "2 ^ (bitlen x - 1) \<le> x" using b by (intro pow_bitlen_le) simp
    qed
    ultimately show ?thesis by simp
  next
    case False
    with bitlen_mono [OF le] have same: "bitlen v = bitlen x" by simp
    with b have "\<not> bitlen v \<le> 53" by simp
    then have vbig: "2 ^ 53 \<le> v" by (simp add: bitlen_le_iff)
    have "2 ^ ?e dvd v"
      using f64_round_dvd [OF vbig] rep same by simp
    then show ?thesis
      using le by (intro floor_multiple) simp_all
  qed
  with floor show ?thesis by simp
qed

lemma f64_round_multiple:
  assumes "2 ^ 52 \<le> c" "c \<le> 2 ^ 53"
  shows "f64_round (c * 2 ^ e) = c * 2 ^ e"
proof (cases "c * 2 ^ e < 2 ^ 53")
  case True
  then show ?thesis by (simp add: f64_round_def)
next
  case big: False
  show ?thesis
  proof (cases "c = 2 ^ 53")
    case True
    have "bitlen ((2::nat) ^ (53 + e)) = Suc (53 + e)"
      by (rule bitlen_eqI) simp_all
    then have bl: "bitlen (c * 2 ^ e) = 54 + e"
      by (simp add: True power_add)
    have y: "c * 2 ^ e = 2 ^ 52 * 2 ^ Suc e"
      by (simp add: True)
    show ?thesis
      using big unfolding f64_round_def Let_def bl
      by (simp add: y del: power_Suc)
  next
    case False
    with assms have c: "c < 2 ^ 53" by simp
    have e: "0 < e"
    proof (rule ccontr)
      assume "\<not> 0 < e"
      with c big show False by simp
    qed
    have "(2::nat) ^ (52 + e) \<le> c * 2 ^ e"
      using assms(1) by (simp add: power_add)
    moreover have "c * 2 ^ e < 2 ^ Suc (52 + e)"
      using c by (simp add: power_add)
    ultimately have bl: "bitlen (c * 2 ^ e) = 53 + e"
      using bitlen_eqI [of "52 + e" "c * 2 ^ e"] by simp
    show ?thesis
      using big e unfolding f64_round_def Let_def bl
      by simp
  qed
qed

lemma f64_round_idem: "f64_round (f64_round x) = f64_round x"
proof (cases "x < 2 ^ 53")
  case True
  then show ?thesis by (simp add: f64_round_def)
next
  case False
  then have big: "2 ^ 53 \<le> x" by simp
  let ?e = "bitlen x - 53"
  let ?q = "x div 2 ^ ?e"
  have b: "54 \<le> bitlen x" using big by (rule big_bitlen)
  then have eq: "bitlen x - 1 = 52 + ?e" "bitlen x = 53 + ?e" by simp_all
  have "2 ^ (bitlen x - 1) \<le> x" using b by (intro pow_bitlen_le) simp
  then have "2 ^ (52 + ?e) \<le> x" by (simp only: eq(1))
  then have "2 ^ 52 * 2 ^ ?e \<le> x" by (simp only: power_add)
  then have lo: "2 ^ 52 \<le> ?q"
    by (simp add: less_eq_div_iff_mult_less_eq)
  have "x < 2 ^ (53 + ?e)" using less_pow_bitlen [of x] eq(2) by simp
  then have "x < 2 ^ 53 * 2 ^ ?e" by (simp add: power_add)
  then have hi: "?q < 2 ^ 53"
    by (simp add: div_less_iff_less_mult)
  have "f64_round x = ?q * 2 ^ ?e \<or> f64_round x = (?q + 1) * 2 ^ ?e"
    using big by (simp add: f64_round_def Let_def)
  then show ?thesis
  proof
    assume r: "f64_round x = ?q * 2 ^ ?e"
    show ?thesis unfolding r using lo hi by (intro f64_round_multiple) simp_all
  next
    assume r: "f64_round x = (?q + 1) * 2 ^ ?e"
    show ?thesis unfolding r using lo hi by (intro f64_round_multiple) simp_all
  qed
qed


text \<open>
  From \<open>2^85\<close> on, adding a \<open>UInt32\<close> no longer changes the clock, so the clock
  never comes near the largest finite \<open>Float64\<close>.
\<close>

lemma f64_round_saturates:
  assumes rep: "f64_round v = v" and big: "2 ^ 85 \<le> v" and n: "n < 2 ^ 32"
  shows "f64_round (v + n) = v"
proof -
  define e where "e = bitlen v - 53"
  have "\<not> bitlen v \<le> 85" using big by (simp add: bitlen_le_iff)
  then have b: "86 \<le> bitlen v" by simp
  then have e: "33 \<le> e" and be: "bitlen v = Suc (52 + e)" by (simp_all add: e_def)
  have v53: "2 ^ 53 \<le> v"
  proof -
    have "(2::nat) ^ 53 \<le> 2 ^ 85" by simp
    then show ?thesis using big by (rule order_trans)
  qed
  have "2 ^ e dvd v" using f64_round_dvd [OF v53] rep by (simp add: e_def)
  then obtain c where "v = 2 ^ e * c" ..
  then have v: "v = c * 2 ^ e" by (simp only: mult.commute)
  have "(2::nat) ^ 32 < 2 ^ e"
    using e by (intro power_strict_increasing) simp_all
  with n have ne: "n < 2 ^ e" by simp
  have "(2::nat) ^ 32 \<le> 2 ^ (e - 1)"
    using e by (intro power_increasing) simp_all
  with n have nh: "n < 2 ^ (e - 1)" by simp
  have "v < 2 ^ bitlen v" by (rule less_pow_bitlen)
  then have "c * 2 ^ e < 2 ^ 53 * 2 ^ e"
    unfolding be by (simp add: v power_add)
  then have c: "c < 2 ^ 53" by simp
  then have "(c + 1) * 2 ^ e \<le> 2 ^ 53 * 2 ^ e"
    by (intro mult_le_mono1) simp
  then have "v + 2 ^ e \<le> 2 ^ Suc (52 + e)"
    by (simp add: v power_add algebra_simps)
  with ne have hi: "v + n < 2 ^ Suc (52 + e)" by simp
  have "2 ^ (bitlen v - 1) \<le> v" using b by (intro pow_bitlen_le) simp
  then have lo: "2 ^ (52 + e) \<le> v + n" unfolding be by simp
  have bl: "bitlen (v + n) = Suc (52 + e)"
    using lo hi by (rule bitlen_eqI)
  have ex: "Suc (52 + e) - 53 = e" by simp
  have q: "(v + n) div 2 ^ e = c" using ne by (simp add: v)
  have r: "(v + n) mod 2 ^ e = n" using ne by (simp add: v)
  have "\<not> v + n < 2 ^ 53" using v53 by simp
  then show ?thesis
    unfolding f64_round_def Let_def bl ex q r using nh by (simp add: v)
qed

section \<open>mix\<close>

lemma accepting_simps:
  "respond (accepting rnd) h c = \<lparr>status = noErr, handle = 0x7000\<rparr>"
  "render (accepting rnd) = rnd"
  by (simp_all add: accepting_def)

lemma mix_returns:
  assumes "render be h (renderCallback (m\<lparr>renderCallbackInputABL_m := inputABL\<rparr>))
             (AudioUnitRender (mixerUnit_m m) nullptr
                \<lparr>mSampleTime = sampleTime_m m, mFlags = kAudioTimeStampSampleTimeValid\<rparr>
                0 n outputABL) mem = Inr (st, mem')"
  shows "mix be m h mem n inputABL outputABL =
           Inr (st,
                (if noErr = st
                 then m\<lparr>renderCallbackInputABL_m := inputABL,
                        sampleTime_m := f64_add_u32 (sampleTime_m m) n\<rparr>
                 else m\<lparr>renderCallbackInputABL_m := inputABL\<rparr>),
                h @ [(AudioUnitRender (mixerUnit_m m) nullptr
                        \<lparr>mSampleTime = sampleTime_m m, mFlags = kAudioTimeStampSampleTimeValid\<rparr>
                        0 n outputABL,
                      \<lparr>status = st, handle = nullptr\<rparr>)],
                mem')"
  using assms by (simp add: mix_def Let_def)

lemma supply_stereo:
  "renderCallback (mixer_at t 0x100) flags ts bus n 0x200 (memory stereo_in stereo_out) =
     Inr (noErr, memory stereo_in stereo_in)"
  by (simp add: renderCallback_def renderCallback_loop.simps memory_def mixer_at_def
      stereo_in_def stereo_out_def buffer_list_def buffer_def noErr_def Let_def)

lemma supply_mono:
  "renderCallback (mixer_at t 0x100) flags ts bus n 0x200 (memory stereo_in mono_out) =
     Inr (kAudio_ParamError, memory stereo_in mono_out)"
  by (simp add: renderCallback_def memory_def mixer_at_def
      stereo_in_def mono_out_def buffer_list_def buffer_def)

text \<open>
  C1. Take a call of \<open>mix\<close> whose input and output lists have the same buffer count,
  hold that many buffers, and agree pairwise in channel count and byte size. The render
  callback of a mixer whose \<open>renderCallbackInputABL_\<close> is the input list, which is how
  \<open>mix\<close> leaves the mixer before it renders, returns \<open>noErr\<close> when it is pulled on the
  output list, and writes nothing but the data pointers of the output buffers: each is
  the data pointer of the input buffer at the same index. When the capability's render
  forwards the pull request to that callback, \<open>mix\<close> returns \<open>noErr\<close> and leaves the
  output list so aliased. No sample memory is read or written.
\<close>

theorem mix_supplies_by_aliasing:
  assumes "mem inputABL = Some inL" and "mem outputABL = Some outL"
    and "mNumberBuffers inL = mNumberBuffers outL"
    and "unat (mNumberBuffers outL) \<le> length (mBuffers inL)"
    and "unat (mNumberBuffers outL) \<le> length (mBuffers outL)"
    and "\<forall>j < unat (mNumberBuffers outL).
           mNumberChannels (mBuffers inL ! j) = mNumberChannels (mBuffers outL ! j) \<and>
           mDataByteSize (mBuffers inL ! j) = mDataByteSize (mBuffers outL ! j)"
  shows "(renderCallbackInputABL_m pThis = inputABL \<longrightarrow>
            renderCallback pThis ioActionFlags inTimeStamp inBusNumber inNumberFrames outputABL mem =
              Inr (noErr, mem(outputABL \<mapsto> outL\<lparr>mBuffers :=
                     aliased 0 (unat (mNumberBuffers outL)) (mBuffers inL) (mBuffers outL)\<rparr>)))
         \<and> (render be h (renderCallback (m\<lparr>renderCallbackInputABL_m := inputABL\<rparr>))
               (AudioUnitRender (mixerUnit_m m) nullptr
                  \<lparr>mSampleTime = sampleTime_m m, mFlags = kAudioTimeStampSampleTimeValid\<rparr>
                  0 n outputABL) mem =
             renderCallback (m\<lparr>renderCallbackInputABL_m := inputABL\<rparr>) nullptr
               \<lparr>mSampleTime = sampleTime_m m, mFlags = kAudioTimeStampSampleTimeValid\<rparr>
               0 n outputABL mem \<longrightarrow>
             mix be m h mem n inputABL outputABL =
               Inr (noErr,
                    m\<lparr>renderCallbackInputABL_m := inputABL,
                      sampleTime_m := f64_add_u32 (sampleTime_m m) n\<rparr>,
                    h @ [(AudioUnitRender (mixerUnit_m m) nullptr
                            \<lparr>mSampleTime = sampleTime_m m, mFlags = kAudioTimeStampSampleTimeValid\<rparr>
                            0 n outputABL,
                          \<lparr>status = noErr, handle = nullptr\<rparr>)],
                    mem(outputABL \<mapsto> outL\<lparr>mBuffers :=
                      aliased 0 (unat (mNumberBuffers outL)) (mBuffers inL) (mBuffers outL)\<rparr>)))
         \<and> (\<forall>j < unat (mNumberBuffers outL).
               mData (aliased 0 (unat (mNumberBuffers outL)) (mBuffers inL) (mBuffers outL) ! j) =
               mData (mBuffers inL ! j))"
proof (intro conjI impI)
  let ?mem' = "mem(outputABL \<mapsto> outL\<lparr>mBuffers :=
                 aliased 0 (unat (mNumberBuffers outL)) (mBuffers inL) (mBuffers outL)\<rparr>)"
  have pulled: "renderCallback p fl ts bus k outputABL mem = Inr (noErr, ?mem')"
    if "renderCallbackInputABL_m p = inputABL" for p fl ts bus k
    using supply_aliases [where pThis = p and mem = mem and inL = inL and ioData = outputABL
        and outL = outL and ioActionFlags = fl and inTimeStamp = ts and inBusNumber = bus
        and inNumberFrames = k] assms that
    by simp
  {
    assume "renderCallbackInputABL_m pThis = inputABL"
    then show "renderCallback pThis ioActionFlags inTimeStamp inBusNumber inNumberFrames outputABL mem =
              Inr (noErr, ?mem')"
      by (rule pulled)
  }
  {
    let ?m1 = "m\<lparr>renderCallbackInputABL_m := inputABL\<rparr>"
    let ?c = "AudioUnitRender (mixerUnit_m m) nullptr
                  \<lparr>mSampleTime = sampleTime_m m, mFlags = kAudioTimeStampSampleTimeValid\<rparr>
                  0 n outputABL"
    assume "render be h (renderCallback ?m1) ?c mem =
             renderCallback ?m1 nullptr
               \<lparr>mSampleTime = sampleTime_m m, mFlags = kAudioTimeStampSampleTimeValid\<rparr>
               0 n outputABL mem"
    then have "render be h (renderCallback ?m1) ?c mem = Inr (noErr, ?mem')"
      by (simp add: pulled)
    from mix_returns [OF this]
    show "mix be m h mem n inputABL outputABL =
               Inr (noErr,
                    m\<lparr>renderCallbackInputABL_m := inputABL,
                      sampleTime_m := f64_add_u32 (sampleTime_m m) n\<rparr>,
                    h @ [(?c, \<lparr>status = noErr, handle = nullptr\<rparr>)],
                    ?mem')"
      by simp
  }
  show "\<forall>j < unat (mNumberBuffers outL).
               mData (aliased 0 (unat (mNumberBuffers outL)) (mBuffers inL) (mBuffers outL) ! j) =
               mData (mBuffers inL ! j)"
    using assms(5) by (simp add: nth_aliased)
qed

theorem mix_supplies_by_aliasing_witness:
  "mix (accepting forwarding_render) (mixer_at 0 nullptr) [] (memory stereo_in stereo_out)
     512 0x100 0x200 =
   Inr (noErr, mixer_at 512 0x100,
        [(AudioUnitRender 0x7000 nullptr \<lparr>mSampleTime = 0, mFlags = 1\<rparr> 0 512 0x200,
          \<lparr>status = noErr, handle = nullptr\<rparr>)],
        memory stereo_in stereo_in)
   \<and> renderCallback (mixer_at 0 0x100) nullptr \<lparr>mSampleTime = 0, mFlags = 1\<rparr> 0 512 0x200
       (memory stereo_in stereo_out) =
     Inr (noErr, memory stereo_in stereo_in)"
  using mix_supplies_by_aliasing [where mem = "memory stereo_in stereo_out" and inputABL = "0x100"
      and outputABL = "0x200" and inL = stereo_in and outL = stereo_out
      and pThis = "mixer_at 0 0x100" and ioActionFlags = nullptr
      and inTimeStamp = "\<lparr>mSampleTime = 0, mFlags = 1\<rparr>" and inBusNumber = 0
      and inNumberFrames = 512 and be = "accepting forwarding_render"
      and m = "mixer_at 0 nullptr" and h = "[]" and n = 512]
  by (simp add: memory_def mixer_at_def stereo_in_def stereo_out_def buffer_list_def buffer_def
      aliased_def upt_2 less_2_cases_iff accepting_simps f64_add_u32_def f64_round_exact
      kAudioTimeStampSampleTimeValid_def)


text \<open>
  C2, as the code has it. \<open>mix\<close> asks the capability to render with the request stamped
  with the sample clock at entry, flagged valid. When the render of that request returns
  \<open>noErr\<close>, \<open>mix\<close> returns \<open>noErr\<close> and the clock afterwards is the \<open>Float64\<close> sum
  of the clock before and the frame count; that sum is the clock before plus the frame
  count whenever this is at most \<open>2^53\<close>.
\<close>

theorem mix_stamps_and_advances:
  assumes "render be h (renderCallback (m\<lparr>renderCallbackInputABL_m := inputABL\<rparr>))
             (AudioUnitRender (mixerUnit_m m) nullptr
                \<lparr>mSampleTime = sampleTime_m m, mFlags = kAudioTimeStampSampleTimeValid\<rparr>
                0 n outputABL) mem = Inr (noErr, mem')"
  shows "mix be m h mem n inputABL outputABL =
           Inr (noErr,
                m\<lparr>renderCallbackInputABL_m := inputABL,
                  sampleTime_m := f64_add_u32 (sampleTime_m m) n\<rparr>,
                h @ [(AudioUnitRender (mixerUnit_m m) nullptr
                        \<lparr>mSampleTime = sampleTime_m m, mFlags = kAudioTimeStampSampleTimeValid\<rparr>
                        0 n outputABL,
                      \<lparr>status = noErr, handle = nullptr\<rparr>)],
                mem')
         \<and> (sampleTime_m m + unat n \<le> 2 ^ 53 \<longrightarrow>
              f64_add_u32 (sampleTime_m m) n = sampleTime_m m + unat n)"
  using mix_returns [OF assms] f64_round_exact [of "sampleTime_m m + unat n"]
  by (simp add: f64_add_u32_def)

theorem mix_stamps_and_advances_witness:
  "mix (accepting (expecting_render 1024)) (mixer_at 1024 nullptr) [] (memory stereo_in stereo_out)
     512 0x100 0x200 =
   Inr (noErr, mixer_at 1536 0x100,
        [(AudioUnitRender 0x7000 nullptr \<lparr>mSampleTime = 1024, mFlags = 1\<rparr> 0 512 0x200,
          \<lparr>status = noErr, handle = nullptr\<rparr>)],
        memory stereo_in stereo_in)"
  using mix_stamps_and_advances [where be = "accepting (expecting_render 1024)"
      and m = "mixer_at 1024 nullptr" and h = "[]" and mem = "memory stereo_in stereo_out"
      and n = 512 and inputABL = "0x100" and outputABL = "0x200"
      and mem' = "memory stereo_in stereo_in"]
    supply_stereo [of 1024]
  by (simp add: accepting_def mixer_at_def kAudioTimeStampSampleTimeValid_def)

text \<open>
  The claim C2 as stated fails at a clock of \<open>2^53\<close> and one frame: the render succeeds,
  \<open>mix\<close> returns \<open>noErr\<close>, and the clock is still \<open>2^53\<close>, not \<open>2^53 + 1\<close>.
\<close>

theorem mix_clock_counterexample:
  "returned_status (mix (accepting (fixed_render noErr)) (mixer_at (2 ^ 53) nullptr) [] Map.empty
      1 nullptr nullptr) = Some noErr
   \<and> returned_clock (mix (accepting (fixed_render noErr)) (mixer_at (2 ^ 53) nullptr) [] Map.empty
      1 nullptr nullptr) = Some (2 ^ 53)
   \<and> sampleTime_m (mixer_at (2 ^ 53) nullptr) + unat (1 :: UInt32) = 2 ^ 53 + 1"
  using f64_round_tie
  by (simp add: mix_def accepting_def fixed_render_def mixer_at_def f64_add_u32_def)


text \<open>
  C3. When the render returns a status other than \<open>noErr\<close>, \<open>mix\<close> returns that very
  status and the sample clock is what it was before the call.
\<close>

theorem mix_failure_keeps_clock:
  assumes "render be h (renderCallback (m\<lparr>renderCallbackInputABL_m := inputABL\<rparr>))
             (AudioUnitRender (mixerUnit_m m) nullptr
                \<lparr>mSampleTime = sampleTime_m m, mFlags = kAudioTimeStampSampleTimeValid\<rparr>
                0 n outputABL) mem = Inr (st, mem')"
    and "st \<noteq> noErr"
  shows "mix be m h mem n inputABL outputABL =
           Inr (st, m\<lparr>renderCallbackInputABL_m := inputABL\<rparr>,
                h @ [(AudioUnitRender (mixerUnit_m m) nullptr
                        \<lparr>mSampleTime = sampleTime_m m, mFlags = kAudioTimeStampSampleTimeValid\<rparr>
                        0 n outputABL,
                      \<lparr>status = st, handle = nullptr\<rparr>)],
                mem')
         \<and> returned_status (mix be m h mem n inputABL outputABL) = Some st
         \<and> returned_clock (mix be m h mem n inputABL outputABL) = Some (sampleTime_m m)"
  using mix_returns [OF assms(1)] assms(2) by auto

theorem mix_failure_keeps_clock_witness:
  "mix (accepting forwarding_render) (mixer_at 1024 nullptr) [] (memory stereo_in mono_out)
     512 0x100 0x200 =
   Inr (kAudio_ParamError, mixer_at 1024 0x100,
        [(AudioUnitRender 0x7000 nullptr \<lparr>mSampleTime = 1024, mFlags = 1\<rparr> 0 512 0x200,
          \<lparr>status = kAudio_ParamError, handle = nullptr\<rparr>)],
        memory stereo_in mono_out)"
  using mix_failure_keeps_clock [where be = "accepting forwarding_render"
      and m = "mixer_at 1024 nullptr" and h = "[]" and mem = "memory stereo_in mono_out"
      and n = 512 and inputABL = "0x100" and outputABL = "0x200"
      and mem' = "memory stereo_in mono_out" and st = kAudio_ParamError]
    supply_mono [of 1024]
  by (simp add: accepting_def mixer_at_def kAudioTimeStampSampleTimeValid_def
      kAudio_ParamError_def noErr_def)


section \<open>The sample clock over runs of operations\<close>

lemma configureMixer_clock:
  "configureMixer be m h = (st, m', h') \<Longrightarrow> m' = m"
  by (auto simp: configureMixer_def Let_def split: prod.splits if_splits)

lemma configureStreamFormats_clock:
  "configureStreamFormats be m h i o' = (st, m', h') \<Longrightarrow> sampleTime_m m' = sampleTime_m m"
  by (auto simp: configureStreamFormats_def Let_def split: prod.splits if_splits)

lemma initialize_clock:
  assumes "initialize be this m h inputASBD outputASBD = (st, m', h')"
  shows "sampleTime_m m' = sampleTime_m m"
  using assms
  by (auto simp: initialize_def Let_def split: prod.splits if_splits
      dest!: configureMixer_clock configureStreamFormats_clock)

lemma uninitialize_clock:
  "uninitialize be m h = (st, m', h') \<Longrightarrow> m' = m"
  by (auto simp: uninitialize_def split: prod.splits if_splits)

lemma setCrossoverVolume_clock:
  "setCrossoverVolume be m h i j v = (st, m', h') \<Longrightarrow> m' = m"
  by (auto simp: setCrossoverVolume_def split: prod.splits if_splits)

lemma mix_clock:
  "mix be m h mem n a b = Inr (st, m', h', mem') \<Longrightarrow>
     sampleTime_m m' = (if st = noErr then f64_add_u32 (sampleTime_m m) n else sampleTime_m m)"
  by (auto simp: mix_def Let_def split: sum.splits prod.splits if_splits)

lemma perform_clock:
  assumes "perform be op m h mem = Inr (st, m', h', mem')"
  shows "sampleTime_m m' =
           (case op of
              Mix n a b \<Rightarrow> if st = noErr then f64_add_u32 (sampleTime_m m) n else sampleTime_m m
            | _ \<Rightarrow> sampleTime_m m)"
proof (cases op)
  case (Initialize this i o')
  with assms show ?thesis by (auto split: prod.splits dest: initialize_clock)
next
  case Uninitialize
  with assms show ?thesis by (auto split: prod.splits dest: uninitialize_clock)
next
  case (SetCrossoverVolume i j v)
  with assms show ?thesis by (auto split: prod.splits dest: setCrossoverVolume_clock)
next
  case (Mix n a b)
  with assms show ?thesis by (simp add: mix_clock)
qed

lemma frames_rendered_Cons:
  "frames_rendered (op # ops) (st # sts) =
     (case op of Mix n a b \<Rightarrow> if st = noErr then unat n else 0 | _ \<Rightarrow> 0)
     + frames_rendered ops sts"
  by (cases op) simp_all

lemma perform_all_Cons:
  assumes "perform_all be (op # ops) m h mem = Inr (sts, m', h', mem')"
  obtains st sts1 m1 h1 mem1 where
    "perform be op m h mem = Inr (st, m1, h1, mem1)"
    "perform_all be ops m1 h1 mem1 = Inr (sts1, m', h', mem')"
    "sts = st # sts1"
  using assms by (auto split: sum.splits prod.splits)

lemma run_clock_exact:
  assumes "perform_all be ops m h mem = Inr (sts, m', h', mem')"
    and "sampleTime_m m + frames_rendered ops sts \<le> 2 ^ 53"
  shows "sampleTime_m m' = sampleTime_m m + frames_rendered ops sts"
  using assms
proof (induction ops arbitrary: m h mem sts)
  case Nil
  then show ?case by simp
next
  case (Cons op ops)
  from Cons.prems(1) obtain st sts1 m1 h1 mem1 where
    step: "perform be op m h mem = Inr (st, m1, h1, mem1)" and
    rest: "perform_all be ops m1 h1 mem1 = Inr (sts1, m', h', mem')" and
    sts: "sts = st # sts1"
    by (rule perform_all_Cons)
  let ?d = "case op of Mix n a b \<Rightarrow> if st = noErr then unat n else 0 | _ \<Rightarrow> 0"
  have bound: "sampleTime_m m + ?d + frames_rendered ops sts1 \<le> 2 ^ 53"
    using Cons.prems(2) by (simp add: sts frames_rendered_Cons add.assoc)
  have m1: "sampleTime_m m1 = sampleTime_m m + ?d"
  proof (cases op)
    case (Mix n a b)
    show ?thesis
    proof (cases "st = noErr")
      case True
      with bound Mix have "sampleTime_m m + unat n \<le> 2 ^ 53" by simp
      then have "f64_add_u32 (sampleTime_m m) n = sampleTime_m m + unat n"
        by (simp add: f64_add_u32_def f64_round_exact)
      with perform_clock [OF step] Mix True show ?thesis by simp
    next
      case False
      with perform_clock [OF step] Mix show ?thesis by simp
    qed
  qed (use perform_clock [OF step] in simp_all)
  have "sampleTime_m m' = sampleTime_m m1 + frames_rendered ops sts1"
    using rest bound by (intro Cons.IH) (simp_all add: m1)
  then show ?case
    by (simp add: m1 sts frames_rendered_Cons add.assoc)
qed

lemma run_clock_mono:
  assumes "perform_all be ops m h mem = Inr (sts, m', h', mem')"
    and "f64_round (sampleTime_m m) = sampleTime_m m"
  shows "sampleTime_m m \<le> sampleTime_m m' \<and> f64_round (sampleTime_m m') = sampleTime_m m'"
  using assms
proof (induction ops arbitrary: m h mem sts)
  case Nil
  then show ?case by simp
next
  case (Cons op ops)
  from Cons.prems(1) obtain st sts1 m1 h1 mem1 where
    step: "perform be op m h mem = Inr (st, m1, h1, mem1)" and
    rest: "perform_all be ops m1 h1 mem1 = Inr (sts1, m', h', mem')"
    by (rule perform_all_Cons)
  have m1: "sampleTime_m m \<le> sampleTime_m m1 \<and> f64_round (sampleTime_m m1) = sampleTime_m m1"
  proof (cases "\<exists>n a b. op = Mix n a b \<and> st = noErr")
    case True
    then obtain n a b where "op = Mix n a b" "st = noErr" by blast
    with perform_clock [OF step] have "sampleTime_m m1 = f64_round (sampleTime_m m + unat n)"
      by (simp add: f64_add_u32_def)
    then show ?thesis
      using f64_round_ge [OF Cons.prems(2), of "sampleTime_m m + unat n"]
      by (simp add: f64_round_idem)
  next
    case False
    with perform_clock [OF step] have "sampleTime_m m1 = sampleTime_m m"
      by (cases op) auto
    with Cons.prems(2) show ?thesis by simp
  qed
  with Cons.IH [OF rest] show ?case by simp
qed

lemma perform_all_append:
  assumes "perform_all be xs m h mem = Inr (s1, m1, h1, mem1)"
    and "perform_all be ys m1 h1 mem1 = Inr (s2, m2, h2, mem2)"
  shows "perform_all be (xs @ ys) m h mem = Inr (s1 @ s2, m2, h2, mem2)"
  using assms
proof (induction xs arbitrary: m h mem s1)
  case Nil
  then show ?case by simp
next
  case (Cons x xs)
  from Cons.prems(1) obtain st sts1 ma ha mema where
    step: "perform be x m h mem = Inr (st, ma, ha, mema)" and
    rest: "perform_all be xs ma ha mema = Inr (sts1, m1, h1, mem1)" and
    s1: "s1 = st # sts1"
    by (rule perform_all_Cons)
  from Cons.IH [OF rest Cons.prems(2)] step s1 show ?case by simp
qed

lemma frames_rendered_append:
  "length xs = length s1 \<Longrightarrow>
     frames_rendered (xs @ ys) (s1 @ s2) = frames_rendered xs s1 + frames_rendered ys s2"
proof (induction xs arbitrary: s1)
  case Nil
  then show ?case by simp
next
  case (Cons x xs)
  then obtain st sts where "s1 = st # sts" by (cases s1) auto
  with Cons show ?case by (simp add: frames_rendered_Cons)
qed

lemma frames_rendered_replicate:
  "frames_rendered (replicate k (Mix n a b)) (replicate k noErr) = k * unat n"
  by (induction k) simp_all

lemma fixed_run:
  "\<exists>m' h'. perform_all (accepting (fixed_render noErr)) (replicate k (Mix n a b)) m h mem =
     Inr (replicate k noErr, m', h', mem)"
proof (induction k arbitrary: m h)
  case 0
  show ?case by simp
next
  case (Suc k)
  have "\<exists>m1 h1. perform (accepting (fixed_render noErr)) (Mix n a b) m h mem = Inr (noErr, m1, h1, mem)"
    by (simp add: mix_def accepting_def fixed_render_def Let_def)
  then obtain m1 h1 where
    step: "perform (accepting (fixed_render noErr)) (Mix n a b) m h mem = Inr (noErr, m1, h1, mem)"
    by blast
  from Suc [of m1 h1] obtain m' h' where
    "perform_all (accepting (fixed_render noErr)) (replicate k (Mix n a b)) m1 h1 mem =
       Inr (replicate k noErr, m', h', mem)"
    by blast
  with step show ?case by simp
qed

lemma fixed_mix:
  "mix (accepting (fixed_render noErr)) m h mem n a b =
     Inr (noErr,
          m\<lparr>renderCallbackInputABL_m := a, sampleTime_m := f64_round (sampleTime_m m + unat n)\<rparr>,
          h @ [(AudioUnitRender (mixerUnit_m m) nullptr
                  \<lparr>mSampleTime = sampleTime_m m, mFlags = kAudioTimeStampSampleTimeValid\<rparr> 0 n b,
                \<lparr>status = noErr, handle = nullptr\<rparr>)],
          mem)"
  by (simp add: mix_def accepting_def fixed_render_def Let_def f64_add_u32_def)

text \<open>
  C5, as the code has it. The constructor sets the sample clock to zero. After any run
  of operations on a new mixer that does not fault, the clock is the sum of the frame
  counts of the \<open>mix\<close> calls that returned \<open>noErr\<close>, provided that sum is at most
  \<open>2^53\<close>; and whatever operations follow, on whatever capability, the clock never
  becomes smaller than it is.
\<close>

theorem sample_clock_additive:
  "sampleTime_m (SystemAudioMixer_ctor indeterminate) = 0
   \<and> (perform_all be ops (SystemAudioMixer_ctor indeterminate) h mem = Inr (sts, m', h', mem') \<longrightarrow>
        (frames_rendered ops sts \<le> 2 ^ 53 \<longrightarrow> sampleTime_m m' = frames_rendered ops sts)
        \<and> (\<forall>be' ops' sts' m2 h2 mem2.
              perform_all be' ops' m' h' mem' = Inr (sts', m2, h2, mem2) \<longrightarrow>
              sampleTime_m m' \<le> sampleTime_m m2))"
proof (intro conjI impI allI)
  show zero: "sampleTime_m (SystemAudioMixer_ctor indeterminate) = 0"
    by (simp add: SystemAudioMixer_ctor_def)
  assume run: "perform_all be ops (SystemAudioMixer_ctor indeterminate) h mem = Inr (sts, m', h', mem')"
  {
    assume "frames_rendered ops sts \<le> 2 ^ 53"
    with run_clock_exact [OF run] zero show "sampleTime_m m' = frames_rendered ops sts"
      by simp
  }
  have rep: "f64_round (sampleTime_m m') = sampleTime_m m'"
    using run_clock_mono [OF run] zero by (simp add: f64_round_exact)
  fix be' ops' sts' m2 h2 mem2
  assume "perform_all be' ops' m' h' mem' = Inr (sts', m2, h2, mem2)"
  from run_clock_mono [OF this rep] show "sampleTime_m m' \<le> sampleTime_m m2"
    by simp
qed


theorem sample_clock_additive_witness:
  "\<exists>m1 h1 m2 h2.
     perform_all (accepting (fixed_render noErr)) short_run
       (SystemAudioMixer_ctor (mixer_at 77 nullptr)) [] Map.empty =
       Inr ([noErr, noErr, noErr], m1, h1, Map.empty)
     \<and> frames_rendered short_run [noErr, noErr, noErr] = 768
     \<and> sampleTime_m m1 = 768
     \<and> perform_all (accepting (fixed_render noErr)) [Mix 128 0x100 0x200] m1 h1 Map.empty =
       Inr ([noErr], m2, h2, Map.empty)
     \<and> sampleTime_m m2 = 896
     \<and> sampleTime_m m1 \<le> sampleTime_m m2"
proof -
  let ?B = "accepting (fixed_render noErr)"
  let ?m0 = "SystemAudioMixer_ctor (mixer_at 77 nullptr)"
  have "\<exists>m1 h1. perform_all ?B short_run ?m0 [] Map.empty =
          Inr ([noErr, noErr, noErr], m1, h1, Map.empty)"
    by (simp add: short_run_def fixed_mix setCrossoverVolume_def api_def accepting_simps Let_def)
  then obtain m1 h1 where
    run: "perform_all ?B short_run ?m0 [] Map.empty = Inr ([noErr, noErr, noErr], m1, h1, Map.empty)"
    by blast
  have "\<exists>m2 h2. perform_all ?B [Mix 128 0x100 0x200] m1 h1 Map.empty =
          Inr ([noErr], m2, h2, Map.empty)"
    by (simp add: fixed_mix)
  then obtain m2 h2 where
    more: "perform_all ?B [Mix 128 0x100 0x200] m1 h1 Map.empty = Inr ([noErr], m2, h2, Map.empty)"
    by blast
  have frames: "frames_rendered short_run [noErr, noErr, noErr] = 768"
    by (simp add: short_run_def)
  note inst = sample_clock_additive [where indeterminate = "mixer_at 77 nullptr" and be = ?B
      and ops = short_run and h = "[]" and mem = Map.empty and sts = "[noErr, noErr, noErr]"
      and m' = m1 and h' = h1 and mem' = Map.empty]
  from inst run frames have c1: "sampleTime_m m1 = 768"
    by simp
  from inst run more have le: "sampleTime_m m1 \<le> sampleTime_m m2"
    by blast
  have "sampleTime_m m2 = f64_round (sampleTime_m m1 + unat (128 :: UInt32))"
    using more by (auto simp: fixed_mix)
  then have c2: "sampleTime_m m2 = 896"
    by (simp add: c1 f64_round_exact)
  from run frames c1 more c2 le show ?thesis
    by blast
qed


text \<open>
  The claim C5 as stated fails for sums above \<open>2^53\<close>: after \<open>2^21\<close> successful calls
  of \<open>2^32 - 1\<close> frames, one of \<open>2^21\<close> frames and one of a single frame, all on a new
  mixer, the frame counts sum to \<open>2^53 + 1\<close> and the clock is \<open>2^53\<close>.
\<close>

theorem sample_clock_counterexample:
  "returned_status (perform_all (accepting (fixed_render noErr)) clock_overrun
       (SystemAudioMixer_ctor (mixer_at 0 nullptr)) [] Map.empty)
     = Some (replicate (length clock_overrun) noErr)
   \<and> returned_clock (perform_all (accepting (fixed_render noErr)) clock_overrun
       (SystemAudioMixer_ctor (mixer_at 0 nullptr)) [] Map.empty)
     = Some (2 ^ 53)
   \<and> frames_rendered clock_overrun (replicate (length clock_overrun) noErr) = 2 ^ 53 + 1"
proof -
  let ?B = "accepting (fixed_render noErr)"
  let ?k = "2097152 :: nat"
  let ?head = "replicate ?k (Mix 0xFFFFFFFF nullptr nullptr)"
  let ?tail = "[Mix 2097152 nullptr nullptr, Mix 1 nullptr nullptr]"
  let ?m0 = "SystemAudioMixer_ctor (mixer_at 0 nullptr)"
  obtain m1 h1 where
    head: "perform_all ?B ?head ?m0 [] Map.empty = Inr (replicate ?k noErr, m1, h1, Map.empty)"
    using fixed_run [of ?k "0xFFFFFFFF" nullptr nullptr ?m0 "[]" Map.empty] by blast
  have fr: "frames_rendered ?head (replicate ?k noErr) = ?k * unat (0xFFFFFFFF :: UInt32)"
    by (rule frames_rendered_replicate)
  have u: "?k * unat (0xFFFFFFFF :: UInt32) = 9007199252643840"
    by simp
  have "sampleTime_m m1 = sampleTime_m ?m0 + frames_rendered ?head (replicate ?k noErr)"
    using head by (rule run_clock_exact) (simp add: fr u SystemAudioMixer_ctor_def)
  then have c1: "sampleTime_m m1 = 9007199252643840"
    by (simp add: fr u SystemAudioMixer_ctor_def)
  have r1: "f64_round (9007199252643840 + 2097152) = 9007199254740992"
    using f64_round_exact [of "9007199254740992"] by simp
  have r2: "f64_round (9007199254740992 + 1) = 9007199254740992"
    using f64_round_tie by simp
  have "\<exists>m2 h2. perform_all ?B ?tail m1 h1 Map.empty = Inr ([noErr, noErr], m2, h2, Map.empty)
          \<and> sampleTime_m m2 = 9007199254740992"
    using r1 r2 by (simp add: fixed_mix c1 del: One_nat_def)
  then obtain m2 h2 where
    tail: "perform_all ?B ?tail m1 h1 Map.empty = Inr ([noErr, noErr], m2, h2, Map.empty)" and
    c2: "sampleTime_m m2 = 9007199254740992"
    by blast
  have run: "perform_all ?B clock_overrun ?m0 [] Map.empty =
               Inr (replicate ?k noErr @ [noErr, noErr], m2, h2, Map.empty)"
    unfolding clock_overrun_def using head tail by (rule perform_all_append)
  have len0: "length clock_overrun = ?k + 2"
    by (simp add: clock_overrun_def)
  have len: "replicate (length clock_overrun) noErr = replicate ?k noErr @ [noErr, noErr]"
    unfolding len0 replicate_add by (simp add: numeral_2_eq_2)
  have "frames_rendered clock_overrun (replicate ?k noErr @ [noErr, noErr]) =
          frames_rendered ?head (replicate ?k noErr) + frames_rendered ?tail [noErr, noErr]"
    unfolding clock_overrun_def by (rule frames_rendered_append) simp
  then have "frames_rendered clock_overrun (replicate ?k noErr @ [noErr, noErr]) = 2 ^ 53 + 1"
    by (simp add: fr u)
  with run c2 len show ?thesis by simp
qed


section \<open>initialize\<close>

lemma not_found_is_error: "kAudioUnitErr_ExtensionNotFound \<noteq> noErr"
  by (simp add: kAudioUnitErr_ExtensionNotFound_def noErr_def)

lemma failure_is_error: "\<not> succeeded e \<Longrightarrow> failure_status e \<noteq> noErr"
  by (cases e rule: succeeded.cases)
    (auto simp: kAudioUnitErr_ExtensionNotFound_def noErr_def)

lemma run_steps_spec_append:
  "run_steps_spec be h (xs @ ys) =
     (case run_steps_spec be h xs of (st, h1) \<Rightarrow> if st = noErr then run_steps_spec be h1 ys else (st, h1))"
proof (induction xs arbitrary: h)
  case Nil
  show ?case by simp
next
  case (Cons x xs)
  show ?case
    by (simp add: Cons.IH failure_is_error split: prod.splits)
qed

lemma volume_loop_run:
  "volume_loop be unit scope n i h = run_steps_spec be h (volume_calls unit scope (unat i) (unat n))"
proof (induction be unit scope n i h rule: volume_loop.induct)
  case (1 be unit scope n i h)
  show ?case
  proof (cases "i < n")
    case True
    then have lt: "unat i < unat n" by (simp add: word_less_nat_alt)
    have calls: "volume_calls unit scope (unat i) (unat n) =
            AudioUnitSetParameter unit kMatrixMixerParam_Volume scope i f32_one 0
            # volume_calls unit scope (unat (i + 1)) (unat n)"
      using lt unat_increment [OF True] by (simp add: volume_calls_def upt_conv_Cons)
    show ?thesis
      using True "1.IH" [OF True]
      by (subst volume_loop.simps) (auto simp: calls split: prod.splits)
  next
    case False
    then have "unat n \<le> unat i" by (simp add: word_less_nat_alt)
    then have "volume_calls unit scope (unat i) (unat n) = []"
      by (simp add: volume_calls_def)
    with False show ?thesis
      by (subst volume_loop.simps) simp
  qed
qed

lemma initialize_run:
  assumes "initialize be this m h inputASBD outputASBD = (st, m', h')"
  shows "run_steps_spec be h (initialize_steps_spec be h this m inputASBD outputASBD) = (st, h')"
    and "st = noErr \<Longrightarrow>
           m' = m\<lparr>mixerUnit_m := made_unit be h m,
                  mixerInputChannels_m := mChannelsPerFrame inputASBD,
                  mixerOutputChannels_m := mChannelsPerFrame outputASBD\<rparr>"
proof -
  obtain found h1 where find: "api be h (AudioComponentFindNext nullptr mixerDesc) = (found, h1)"
    by (cases "api be h (AudioComponentFindNext nullptr mixerDesc)")
  obtain made h2 where new:
    "api be h1 (AudioComponentInstanceNew (handle found) (mixerUnit_m m)) = (made, h2)"
    by (cases "api be h1 (AudioComponentInstanceNew (handle found) (mixerUnit_m m))")
  let ?u = "handle made"
  let ?c3 = "AudioUnitSetProperty ?u kAudioUnitProperty_BusCount kAudioUnitScope_Input 0 (UInt32Data 1)"
  let ?c4 = "AudioUnitSetProperty ?u kAudioUnitProperty_BusCount kAudioUnitScope_Output 0 (UInt32Data 1)"
  let ?c5 = "AudioUnitSetProperty ?u kAudioUnitProperty_StreamFormat kAudioUnitScope_Input 0
               (StreamFormatData inputASBD)"
  let ?c6 = "AudioUnitSetProperty ?u kAudioUnitProperty_StreamFormat kAudioUnitScope_Output 0
               (StreamFormatData outputASBD)"
  let ?c7 = "AudioUnitSetProperty ?u kAudioUnitProperty_ShouldAllocateBuffer kAudioUnitScope_Input 0
               (UInt32Data 0)"
  let ?c8 = "AudioUnitSetProperty ?u kAudioUnitProperty_SetRenderCallback kAudioUnitScope_Global 0
               (RenderCallbackData this)"
  let ?c9 = "AudioUnitInitialize ?u"
  let ?c10 = "AudioUnitSetParameter ?u kMatrixMixerParam_Volume kAudioUnitScope_Global 0xFFFFFFFF
                f32_one 0"
  obtain r3 h3 where a3: "api be h2 ?c3 = (r3, h3)" by (cases "api be h2 ?c3")
  obtain r4 h4 where a4: "api be h3 ?c4 = (r4, h4)" by (cases "api be h3 ?c4")
  obtain r5 h5 where a5: "api be h4 ?c5 = (r5, h5)" by (cases "api be h4 ?c5")
  obtain r6 h6 where a6: "api be h5 ?c6 = (r6, h6)" by (cases "api be h5 ?c6")
  obtain r7 h7 where a7: "api be h6 ?c7 = (r7, h7)" by (cases "api be h6 ?c7")
  obtain r8 h8 where a8: "api be h7 ?c8 = (r8, h8)" by (cases "api be h7 ?c8")
  obtain r9 h9 where a9: "api be h8 ?c9 = (r9, h9)" by (cases "api be h8 ?c9")
  obtain r10 h10 where a10: "api be h9 ?c10 = (r10, h10)" by (cases "api be h9 ?c10")
  let ?vin = "volume_calls ?u kAudioUnitScope_Input 0 (unat (mChannelsPerFrame inputASBD))"
  let ?vout = "volume_calls ?u kAudioUnitScope_Output 0 (unat (mChannelsPerFrame outputASBD))"
  obtain s11 h11 where a11: "run_steps_spec be h10 ?vin = (s11, h11)" by (cases "run_steps_spec be h10 ?vin")
  obtain s12 h12 where a12: "run_steps_spec be h11 ?vout = (s12, h12)" by (cases "run_steps_spec be h11 ?vout")
  note calls = find new a3 a4 a5 a6 a7 a8 a9 a10 a11 a12
  have "(case initialize be this m h inputASBD outputASBD of (st, m', h') \<Rightarrow> (st, h')) =
          run_steps_spec be h (initialize_steps_spec be h this m inputASBD outputASBD)"
    unfolding initialize_def initialize_steps_spec_def made_unit_def configureMixer_def
      configureStreamFormats_def volume_loop_run
    by (simp add: calls Let_def run_steps_spec_append)
  with assms show "run_steps_spec be h (initialize_steps_spec be h this m inputASBD outputASBD) = (st, h')"
    by simp
  assume "st = noErr"
  with assms show "m' = m\<lparr>mixerUnit_m := made_unit be h m,
                  mixerInputChannels_m := mChannelsPerFrame inputASBD,
                  mixerOutputChannels_m := mChannelsPerFrame outputASBD\<rparr>"
    unfolding initialize_def made_unit_def configureMixer_def configureStreamFormats_def
      volume_loop_run
    by (simp add: calls Let_def not_found_is_error split: if_splits)
qed


lemma run_steps_spec_shape:
  assumes "run_steps_spec be h cs = (st, h')"
  shows "\<exists>es. h' = h @ es \<and> abort_shape es st \<and> map fst es = take (length es) cs
           \<and> (st = noErr \<longrightarrow> map fst es = cs \<and> list_all succeeded es)"
  using assms
proof (induction cs arbitrary: h)
  case Nil
  then show ?case by simp
next
  case (Cons c cs)
  obtain r h1 where a: "api be h c = (r, h1)" by (cases "api be h c")
  then have h1: "h1 = h @ [(c, r)]" by (auto simp: api_def Let_def)
  show ?case
  proof (cases "succeeded (c, r)")
    case True
    with Cons.prems a have "run_steps_spec be h1 cs = (st, h')" by simp
    from Cons.IH [OF this] obtain es where
      es: "h' = h1 @ es" "abort_shape es st" "map fst es = take (length es) cs"
        "st = noErr \<longrightarrow> map fst es = cs \<and> list_all succeeded es"
      by blast
    show ?thesis
    proof (intro exI conjI)
      show "h' = h @ ((c, r) # es)" using es(1) h1 by simp
      show "abort_shape ((c, r) # es) st" using es(2) True by simp
      show "map fst ((c, r) # es) = take (length ((c, r) # es)) (c # cs)" using es(3) by simp
      show "st = noErr \<longrightarrow> map fst ((c, r) # es) = c # cs \<and> list_all succeeded ((c, r) # es)"
        using es(4) True by simp
    qed
  next
    case False
    with Cons.prems a have res: "st = failure_status (c, r)" "h' = h1" by simp_all
    show ?thesis
    proof (intro exI conjI)
      show "h' = h @ [(c, r)]" using res h1 by simp
      show "abort_shape [(c, r)] st" using res False by simp
      show "map fst [(c, r)] = take (length [(c, r)]) (c # cs)" by simp
      show "st = noErr \<longrightarrow> map fst [(c, r)] = c # cs \<and> list_all succeeded [(c, r)]"
        using res(1) failure_is_error [OF False] by simp
    qed
  qed
qed

lemma failing_at_simps:
  "respond (failing_at k st rnd) h c =
     (if length h = k then \<lparr>status = st, handle = nullptr\<rparr>
      else \<lparr>status = noErr, handle = 0x7000\<rparr>)"
  "render (failing_at k st rnd) = rnd"
  by (simp_all add: failing_at_def)

text \<open>
  C6. \<open>initialize\<close> makes the configuration calls in order and stops at the first one
  that fails: every call it made before succeeded, the failing call is the last call
  made, and the status returned is that call's status. When the component search finds
  nothing, \<open>initialize\<close> returns \<open>kAudioUnitErr_ExtensionNotFound\<close>, the search is the
  only call made, and the mixer is unchanged.
\<close>

theorem initialize_aborts_at_first_failure:
  assumes "initialize be this m h inputASBD outputASBD = (st, m', h')"
  shows "run_steps_spec be h (initialize_steps_spec be h this m inputASBD outputASBD) = (st, h')
         \<and> (\<exists>es. h' = h @ es \<and> abort_shape es st
                \<and> map fst es = take (length es) (initialize_steps_spec be h this m inputASBD outputASBD))
         \<and> (handle (respond be h (AudioComponentFindNext nullptr mixerDesc)) = nullptr \<longrightarrow>
              st = kAudioUnitErr_ExtensionNotFound \<and> m' = m \<and>
              h' = h @ [(AudioComponentFindNext nullptr mixerDesc,
                         respond be h (AudioComponentFindNext nullptr mixerDesc))])"
proof (intro conjI impI)
  show run: "run_steps_spec be h (initialize_steps_spec be h this m inputASBD outputASBD) = (st, h')"
    using assms by (rule initialize_run(1))
  from run_steps_spec_shape [OF run]
  show "\<exists>es. h' = h @ es \<and> abort_shape es st
                \<and> map fst es = take (length es) (initialize_steps_spec be h this m inputASBD outputASBD)"
    by blast
next
  assume null: "handle (respond be h (AudioComponentFindNext nullptr mixerDesc)) = nullptr"
  with assms have "(st, m', h') = (kAudioUnitErr_ExtensionNotFound, m,
      h @ [(AudioComponentFindNext nullptr mixerDesc,
            respond be h (AudioComponentFindNext nullptr mixerDesc))])"
    by (simp add: initialize_def api_def Let_def)
  then show "st = kAudioUnitErr_ExtensionNotFound" "m' = m"
    "h' = h @ [(AudioComponentFindNext nullptr mixerDesc,
                respond be h (AudioComponentFindNext nullptr mixerDesc))]"
    by simp_all
qed

theorem initialize_aborts_at_first_failure_witness:
  "initialize (failing_at 0 (- 10875) forwarding_render) 0x5000 (mixer_at 0 nullptr) [] stereo stereo =
     (kAudioUnitErr_ExtensionNotFound, mixer_at 0 nullptr,
      [(AudioComponentFindNext nullptr mixerDesc, \<lparr>status = - 10875, handle = nullptr\<rparr>)])
   \<and> (\<exists>m' es. initialize (failing_at 4 (- 10868) forwarding_render) 0x5000 (mixer_at 0 nullptr) []
                  stereo stereo = (- 10868, m', es)
          \<and> abort_shape es (- 10868)
          \<and> map fst es =
              [AudioComponentFindNext nullptr mixerDesc,
               AudioComponentInstanceNew 0x7000 0x7000,
               AudioUnitSetProperty 0x7000 kAudioUnitProperty_BusCount kAudioUnitScope_Input 0
                 (UInt32Data 1),
               AudioUnitSetProperty 0x7000 kAudioUnitProperty_BusCount kAudioUnitScope_Output 0
                 (UInt32Data 1),
               AudioUnitSetProperty 0x7000 kAudioUnitProperty_StreamFormat kAudioUnitScope_Input 0
                 (StreamFormatData stereo)])"
proof -
  let ?B0 = "failing_at 0 (- 10875) forwarding_render"
  let ?B4 = "failing_at 4 (- 10868) forwarding_render"
  let ?m = "mixer_at 0 nullptr"
  have null: "handle (respond ?B0 [] (AudioComponentFindNext nullptr mixerDesc)) = nullptr"
    by (simp add: failing_at_simps)
  obtain st0 m0 h0 where r0: "initialize ?B0 0x5000 ?m [] stereo stereo = (st0, m0, h0)"
    by (cases "initialize ?B0 0x5000 ?m [] stereo stereo")
  from initialize_aborts_at_first_failure [OF r0] null
  have "st0 = kAudioUnitErr_ExtensionNotFound" "m0 = ?m"
    "h0 = [(AudioComponentFindNext nullptr mixerDesc,
            respond ?B0 [] (AudioComponentFindNext nullptr mixerDesc))]"
    by simp_all
  with r0 have first: "initialize ?B0 0x5000 ?m [] stereo stereo =
     (kAudioUnitErr_ExtensionNotFound, ?m,
      [(AudioComponentFindNext nullptr mixerDesc, \<lparr>status = - 10875, handle = nullptr\<rparr>)])"
    by (simp add: failing_at_simps)
  obtain st4 m4 h4 where r4: "initialize ?B4 0x5000 ?m [] stereo stereo = (st4, m4, h4)"
    by (cases "initialize ?B4 0x5000 ?m [] stereo stereo")
  have plan: "take 5 (initialize_steps_spec ?B4 [] 0x5000 ?m stereo stereo) =
              [AudioComponentFindNext nullptr mixerDesc,
               AudioComponentInstanceNew 0x7000 0x7000,
               AudioUnitSetProperty 0x7000 kAudioUnitProperty_BusCount kAudioUnitScope_Input 0
                 (UInt32Data 1),
               AudioUnitSetProperty 0x7000 kAudioUnitProperty_BusCount kAudioUnitScope_Output 0
                 (UInt32Data 1),
               AudioUnitSetProperty 0x7000 kAudioUnitProperty_StreamFormat kAudioUnitScope_Input 0
                 (StreamFormatData stereo)]"
    by (simp add: initialize_steps_spec_def made_unit_def api_def failing_at_simps Let_def mixer_at_def
        nullptr_def)
  have eval: "st4 = - 10868 \<and> length h4 = 5"
    using r4
    by (auto simp: initialize_def configureMixer_def configureStreamFormats_def api_def
        failing_at_simps Let_def mixer_at_def nullptr_def noErr_def)
  from initialize_aborts_at_first_failure [OF r4] obtain es where
    es: "h4 = [] @ es" "abort_shape es st4"
      "map fst es = take (length es) (initialize_steps_spec ?B4 [] 0x5000 ?m stereo stereo)"
    by blast
  from es eval plan r4 have "initialize ?B4 0x5000 ?m [] stereo stereo = (- 10868, m4, es)
          \<and> abort_shape es (- 10868)
          \<and> map fst es =
              [AudioComponentFindNext nullptr mixerDesc,
               AudioComponentInstanceNew 0x7000 0x7000,
               AudioUnitSetProperty 0x7000 kAudioUnitProperty_BusCount kAudioUnitScope_Input 0
                 (UInt32Data 1),
               AudioUnitSetProperty 0x7000 kAudioUnitProperty_BusCount kAudioUnitScope_Output 0
                 (UInt32Data 1),
               AudioUnitSetProperty 0x7000 kAudioUnitProperty_StreamFormat kAudioUnitScope_Input 0
                 (StreamFormatData stereo)]"
    by simp
  then have "\<exists>m' es. initialize ?B4 0x5000 ?m [] stereo stereo = (- 10868, m', es)
          \<and> abort_shape es (- 10868)
          \<and> map fst es =
              [AudioComponentFindNext nullptr mixerDesc,
               AudioComponentInstanceNew 0x7000 0x7000,
               AudioUnitSetProperty 0x7000 kAudioUnitProperty_BusCount kAudioUnitScope_Input 0
                 (UInt32Data 1),
               AudioUnitSetProperty 0x7000 kAudioUnitProperty_BusCount kAudioUnitScope_Output 0
                 (UInt32Data 1),
               AudioUnitSetProperty 0x7000 kAudioUnitProperty_StreamFormat kAudioUnitScope_Input 0
                 (StreamFormatData stereo)]"
    by (intro exI)
  with first show ?thesis by (intro conjI)
qed












section \<open>uninitialize\<close>

text \<open>
  C8. \<open>uninitialize\<close> first calls \<open>AudioUnitUninitialize\<close> on the mixing unit and then
  \<open>AudioComponentInstanceDispose\<close> on it. When the first call fails, its status is
  returned and the second call is not made; when the second fails, its status is
  returned; when both succeed, \<open>noErr\<close> is returned. Here \<open>r1\<close> and \<open>r2\<close> are the
  capability's replies to the two calls, the second asked after the first.
\<close>

theorem uninitialize_deactivates_then_releases:
  assumes "api be h (AudioUnitUninitialize (mixerUnit_m m)) = (r1, h1)"
    and "api be h1 (AudioComponentInstanceDispose (mixerUnit_m m)) = (r2, h2)"
  shows "h1 = h @ [(AudioUnitUninitialize (mixerUnit_m m), r1)]
         \<and> h2 = h1 @ [(AudioComponentInstanceDispose (mixerUnit_m m), r2)]
         \<and> (status r1 \<noteq> noErr \<longrightarrow> uninitialize be m h = (status r1, m, h1))
         \<and> (status r1 = noErr \<and> status r2 \<noteq> noErr \<longrightarrow> uninitialize be m h = (status r2, m, h2))
         \<and> (status r1 = noErr \<and> status r2 = noErr \<longrightarrow> uninitialize be m h = (noErr, m, h2))"
  using assms by (auto simp: uninitialize_def api_def Let_def)

theorem uninitialize_deactivates_then_releases_witness:
  "uninitialize (accepting forwarding_render) (mixer_at 0 nullptr) [] =
     (noErr, mixer_at 0 nullptr,
      [(AudioUnitUninitialize 0x7000, \<lparr>status = noErr, handle = 0x7000\<rparr>),
       (AudioComponentInstanceDispose 0x7000, \<lparr>status = noErr, handle = 0x7000\<rparr>)])
   \<and> uninitialize (failing_at 0 (- 10867) forwarding_render) (mixer_at 0 nullptr) [] =
     (- 10867, mixer_at 0 nullptr,
      [(AudioUnitUninitialize 0x7000, \<lparr>status = - 10867, handle = nullptr\<rparr>)])
   \<and> uninitialize (failing_at 1 (- 10867) forwarding_render) (mixer_at 0 nullptr) [] =
     (- 10867, mixer_at 0 nullptr,
      [(AudioUnitUninitialize 0x7000, \<lparr>status = noErr, handle = 0x7000\<rparr>),
       (AudioComponentInstanceDispose 0x7000, \<lparr>status = - 10867, handle = nullptr\<rparr>)])"
  using uninitialize_deactivates_then_releases [where be = "accepting forwarding_render"
      and m = "mixer_at 0 nullptr" and h = "[]"
      and ?r1.0 = "\<lparr>status = noErr, handle = 0x7000\<rparr>"
      and ?h1.0 = "[(AudioUnitUninitialize 0x7000, \<lparr>status = noErr, handle = 0x7000\<rparr>)]"
      and ?r2.0 = "\<lparr>status = noErr, handle = 0x7000\<rparr>"
      and ?h2.0 = "[(AudioUnitUninitialize 0x7000, \<lparr>status = noErr, handle = 0x7000\<rparr>),
       (AudioComponentInstanceDispose 0x7000, \<lparr>status = noErr, handle = 0x7000\<rparr>)]"]
    uninitialize_deactivates_then_releases [where be = "failing_at 0 (- 10867) forwarding_render"
      and m = "mixer_at 0 nullptr" and h = "[]"
      and ?r1.0 = "\<lparr>status = - 10867, handle = nullptr\<rparr>"
      and ?h1.0 = "[(AudioUnitUninitialize 0x7000, \<lparr>status = - 10867, handle = nullptr\<rparr>)]"
      and ?r2.0 = "\<lparr>status = noErr, handle = 0x7000\<rparr>"
      and ?h2.0 = "[(AudioUnitUninitialize 0x7000, \<lparr>status = - 10867, handle = nullptr\<rparr>),
       (AudioComponentInstanceDispose 0x7000, \<lparr>status = noErr, handle = 0x7000\<rparr>)]"]
    uninitialize_deactivates_then_releases [where be = "failing_at 1 (- 10867) forwarding_render"
      and m = "mixer_at 0 nullptr" and h = "[]"
      and ?r1.0 = "\<lparr>status = noErr, handle = 0x7000\<rparr>"
      and ?h1.0 = "[(AudioUnitUninitialize 0x7000, \<lparr>status = noErr, handle = 0x7000\<rparr>)]"
      and ?r2.0 = "\<lparr>status = - 10867, handle = nullptr\<rparr>"
      and ?h2.0 = "[(AudioUnitUninitialize 0x7000, \<lparr>status = noErr, handle = 0x7000\<rparr>),
       (AudioComponentInstanceDispose 0x7000, \<lparr>status = - 10867, handle = nullptr\<rparr>)]"]
  by (simp add: api_def accepting_simps failing_at_simps mixer_at_def noErr_def Let_def)

section \<open>setCrossoverVolume\<close>

lemma crossover_request:
  "setCrossoverVolume be m h i j g =
     (status (respond be h (AudioUnitSetParameter (mixerUnit_m m) kMatrixMixerParam_Volume
                              kAudioUnitScope_Global (push_bit 16 i OR j) g 0)),
      m,
      h @ [(AudioUnitSetParameter (mixerUnit_m m) kMatrixMixerParam_Volume
              kAudioUnitScope_Global (push_bit 16 i OR j) g 0,
            respond be h (AudioUnitSetParameter (mixerUnit_m m) kMatrixMixerParam_Volume
                            kAudioUnitScope_Global (push_bit 16 i OR j) g 0))])"
  by (auto simp: setCrossoverVolume_def api_def Let_def)

lemma element_alias:
  fixes i k :: "32 word"
  assumes "\<not> bit i 0" "\<not> bit k 16"
  shows "push_bit 16 i OR (k + 65536) = push_bit 16 (i + 1) OR k"
proof -
  have p: "(65536 :: 32 word) = 2 ^ 16" by simp
  have e: "bit ((2 :: 32 word) ^ 16) n \<longleftrightarrow> n = 16" for n
    unfolding bit_exp_iff by auto
  have "k + 2 ^ 16 = k OR 2 ^ 16"
  proof (rule disjunctive_add)
    fix n
    show "\<not> bit k n \<or> \<not> bit ((2 :: 32 word) ^ 16) n"
      using assms(2) unfolding e by auto
  qed
  then have a: "k + 65536 = k OR 65536" by (simp only: p)
  have b: "i + 1 = i OR 1"
  proof (rule disjunctive_add)
    fix n
    show "\<not> bit i n \<or> \<not> bit (1 :: 32 word) n"
      using assms(1) by (cases "n = 0") (simp_all add: bit_1_iff)
  qed
  have c: "push_bit 16 (1 :: 32 word) = 65536" by simp
  show ?thesis
    unfolding a b push_bit_or c by (simp add: ac_simps)
qed

text \<open>
  C9, as the code has it. \<open>setCrossoverVolume\<close> sets the volume parameter of the global
  scope at the element \<open>(i << 16) | j\<close> for any two indices, without a range check,
  and returns the status of that call. For an even \<open>i\<close> and a \<open>k\<close> whose bit 16 is
  clear, the indices \<open>(i, k + 65536)\<close> and \<open>(i + 1, k)\<close> give the same request.
  Negative indices fall into the same elements: an input index \<open>-1\<close> gives the request
  of input index \<open>65535\<close>, and an output index \<open>-1\<close> gives the element \<open>0xFFFFFFFF\<close>
  whatever the input index. (The shift of a negative \<open>int\<close> is taken on the two's
  complement pattern.)
\<close>

theorem setCrossoverVolume_element:
  "setCrossoverVolume be m h i j g =
     (status (respond be h (AudioUnitSetParameter (mixerUnit_m m) kMatrixMixerParam_Volume
                              kAudioUnitScope_Global (push_bit 16 i OR j) g 0)),
      m,
      h @ [(AudioUnitSetParameter (mixerUnit_m m) kMatrixMixerParam_Volume
              kAudioUnitScope_Global (push_bit 16 i OR j) g 0,
            respond be h (AudioUnitSetParameter (mixerUnit_m m) kMatrixMixerParam_Volume
                            kAudioUnitScope_Global (push_bit 16 i OR j) g 0))])
   \<and> (\<not> bit i 0 \<and> \<not> bit k 16 \<longrightarrow>
        setCrossoverVolume be m h i (k + 65536) g = setCrossoverVolume be m h (i + 1) k g)
   \<and> setCrossoverVolume be m h (- 1) j g = setCrossoverVolume be m h 65535 j g
   \<and> setCrossoverVolume be m h i (- 1) g = setCrossoverVolume be m h 65535 65535 g"
proof (intro conjI impI)
  show "setCrossoverVolume be m h i j g =
     (status (respond be h (AudioUnitSetParameter (mixerUnit_m m) kMatrixMixerParam_Volume
                              kAudioUnitScope_Global (push_bit 16 i OR j) g 0)),
      m,
      h @ [(AudioUnitSetParameter (mixerUnit_m m) kMatrixMixerParam_Volume
              kAudioUnitScope_Global (push_bit 16 i OR j) g 0,
            respond be h (AudioUnitSetParameter (mixerUnit_m m) kMatrixMixerParam_Volume
                            kAudioUnitScope_Global (push_bit 16 i OR j) g 0))])"
    by (rule crossover_request)
next
  assume "\<not> bit i 0 \<and> \<not> bit k 16"
  then have "push_bit 16 i OR (k + 65536) = push_bit 16 (i + 1) OR k"
    by (intro element_alias) simp_all
  then show "setCrossoverVolume be m h i (k + 65536) g = setCrossoverVolume be m h (i + 1) k g"
    by (simp add: crossover_request)
next
  have "push_bit 16 (- 1 :: 32 word) = push_bit 16 65535"
    by (simp add: push_bit_eq_mult)
  then show "setCrossoverVolume be m h (- 1) j g = setCrossoverVolume be m h 65535 j g"
    by (simp only: crossover_request)
next
  have "push_bit 16 i OR (- 1 :: 32 word) = push_bit 16 65535 OR 65535"
    by simp
  then show "setCrossoverVolume be m h i (- 1) g = setCrossoverVolume be m h 65535 65535 g"
    by (simp only: crossover_request)
qed

theorem setCrossoverVolume_element_witness:
  "setCrossoverVolume (accepting forwarding_render) (mixer_at 0 nullptr) [] 0 65539 f32_one =
     (noErr, mixer_at 0 nullptr,
      [(AudioUnitSetParameter 0x7000 kMatrixMixerParam_Volume kAudioUnitScope_Global 65539 f32_one 0,
        \<lparr>status = noErr, handle = 0x7000\<rparr>)])
   \<and> setCrossoverVolume (accepting forwarding_render) (mixer_at 0 nullptr) [] 1 3 f32_one =
     (noErr, mixer_at 0 nullptr,
      [(AudioUnitSetParameter 0x7000 kMatrixMixerParam_Volume kAudioUnitScope_Global 65539 f32_one 0,
        \<lparr>status = noErr, handle = 0x7000\<rparr>)])"
  using setCrossoverVolume_element [where be = "accepting forwarding_render"
      and m = "mixer_at 0 nullptr" and h = "[]" and i = 0 and j = 65539 and k = 3 and g = f32_one]
  by (auto simp: accepting_simps mixer_at_def)

text \<open>
  The claim C9 as stated fails for an odd input index, since the two indices are joined
  by a bitwise or: \<open>(1, 65536)\<close> addresses element \<open>65536\<close>, and \<open>(2, 0)\<close> element
  \<open>131072\<close>.
\<close>

theorem setCrossoverVolume_alias_counterexample:
  "setCrossoverVolume (accepting forwarding_render) (mixer_at 0 nullptr) [] 1 (0 + 65536) f32_one =
     (noErr, mixer_at 0 nullptr,
      [(AudioUnitSetParameter 0x7000 kMatrixMixerParam_Volume kAudioUnitScope_Global 65536 f32_one 0,
        \<lparr>status = noErr, handle = 0x7000\<rparr>)])
   \<and> setCrossoverVolume (accepting forwarding_render) (mixer_at 0 nullptr) [] (1 + 1) 0 f32_one =
     (noErr, mixer_at 0 nullptr,
      [(AudioUnitSetParameter 0x7000 kMatrixMixerParam_Volume kAudioUnitScope_Global 131072 f32_one 0,
        \<lparr>status = noErr, handle = 0x7000\<rparr>)])
   \<and> setCrossoverVolume (accepting forwarding_render) (mixer_at 0 nullptr) [] 1 (0 + 65536) f32_one
       \<noteq> setCrossoverVolume (accepting forwarding_render) (mixer_at 0 nullptr) [] (1 + 1) 0 f32_one"
  by (simp add: crossover_request accepting_simps mixer_at_def)

end
